theory Spec2Isabelle
  imports Complex_Main
begin

section \<open>Offset Formatter (utils/geo.py, format_offset)\<close>

text \<open>
  Python's \<^verbatim>\<open>str(n)\<close> for a natural number: its decimal digits, most significant first.
\<close>

definition digit_char :: "nat \<Rightarrow> char" where
  "digit_char d = ''0123456789'' ! d"

fun dec_digits :: "nat \<Rightarrow> string" where
  "dec_digits n =
     (if n < 10 then [digit_char n] else dec_digits (n div 10) @ [digit_char (n mod 10)])"

text \<open>
  The format specification \<^verbatim>\<open>{n:02d}\<close>: the decimal representation, a minus sign first
  for a negative number, filled with zeros after the sign up to a width of at least two
  characters. Longer representations are not cut.
\<close>

definition fmt_02d :: "int \<Rightarrow> string" where
  "fmt_02d n =
     (if n < 0 then CHR ''-'' # dec_digits (nat (- n))
      else replicate (2 - length (dec_digits (nat n))) CHR ''0'' @ dec_digits (nat n))"

text \<open>
  \<^verbatim>\<open>
  def format_offset(seconds: int) -> str:
      sign = '+' if seconds >= 0 else '-'
      sec = abs(int(seconds))
      hh = sec // 3600
      mm = (sec % 3600) // 60
      return f"{sign}{hh:02d}:{mm:02d}"
  \<close>
\<close>

definition format_offset :: "int \<Rightarrow> string" where
  "format_offset seconds =
     (let sign = (if seconds \<ge> 0 then CHR ''+'' else CHR ''-'');
          sec = \<bar>seconds\<bar>;
          hh = sec div 3600;
          mm = (sec mod 3600) div 60
      in sign # fmt_02d hh @ CHR '':'' # fmt_02d mm)"

text \<open>
  The pattern \<^verbatim>\<open>^[+-]\d{2}:\d{2}$\<close>: a sign, two digits, a colon, two digits and
  nothing else.
\<close>

definition is_digit :: "char \<Rightarrow> bool" where
  "is_digit c = (c \<in> set ''0123456789'')"

definition matches_offset_pattern :: "string \<Rightarrow> bool" where
  "matches_offset_pattern s =
     (case s of
        [sg, h1, h2, c, m1, m2] \<Rightarrow>
          (sg = CHR ''+'' \<or> sg = CHR ''-'') \<and> is_digit h1 \<and> is_digit h2 \<and>
          c = CHR '':'' \<and> is_digit m1 \<and> is_digit m2
      | _ \<Rightarrow> False)"

section \<open>Python values, exceptions and the runtime\<close>

text \<open>
  The exceptions the modelled code can meet. \<open>HTTPError\<close> stands for \<^verbatim>\<open>httpx.HTTPError\<close>
  and its subclasses (transport errors and the status error of \<^verbatim>\<open>raise_for_status\<close>);
  the others are the built-in exceptions, none of which is a subclass of it.
\<close>

datatype exc = HTTPError | ValueError | KeyError | TypeError | AttributeError
  | IndexError | OverflowError

text \<open>
  A Python float is the real number it denotes, an infinity or NaN. Order comparisons
  with NaN are false.
\<close>

datatype pyfloat = Finite real | PosInf | NegInf | NaN

fun float_le :: "pyfloat \<Rightarrow> pyfloat \<Rightarrow> bool" where
  "float_le NaN _ = False"
| "float_le _ NaN = False"
| "float_le NegInf _ = True"
| "float_le _ PosInf = True"
| "float_le (Finite x) (Finite y) = (x \<le> y)"
| "float_le (Finite x) NegInf = False"
| "float_le PosInf (Finite y) = False"
| "float_le PosInf NegInf = False"

text \<open>
  The values a decoded JSON document consists of (\<^verbatim>\<open>r.json()\<close>, the chart document):
  \<open>JNull\<close> is \<^verbatim>\<open>None\<close>, \<open>JObj\<close> a \<^verbatim>\<open>dict\<close> with string keys, given as its
  items, \<open>JArr\<close> a \<^verbatim>\<open>list\<close>.
\<close>

datatype jval = JNull | JBool bool | JInt int | JFloat pyfloat | JStr string
  | JArr "jval list" | JObj "(string \<times> jval) list"

text \<open>Sequencing of computations that may raise: the first exception wins.\<close>

definition bindE :: "exc + 'a \<Rightarrow> ('a \<Rightarrow> exc + 'b) \<Rightarrow> exc + 'b" where
  "bindE m f = (case m of Inl e \<Rightarrow> Inl e | Inr v \<Rightarrow> f v)"

text \<open>Truth value testing (\<^verbatim>\<open>if x:\<close>, \<^verbatim>\<open>not x\<close>, \<^verbatim>\<open>x or y\<close>).\<close>

fun truthy :: "jval \<Rightarrow> bool" where
  "truthy JNull = False"
| "truthy (JBool b) = b"
| "truthy (JInt i) = (i \<noteq> 0)"
| "truthy (JFloat f) = (f \<noteq> Finite 0)"
| "truthy (JStr s) = (s \<noteq> [])"
| "truthy (JArr xs) = (xs \<noteq> [])"
| "truthy (JObj kvs) = (kvs \<noteq> [])"

definition py_or :: "jval \<Rightarrow> jval \<Rightarrow> jval" where
  "py_or a b = (if truthy a then a else b)"

text \<open>\<^verbatim>\<open>x.get(k)\<close> and \<^verbatim>\<open>x.get(k, d)\<close>: only a dict has the method.\<close>

fun py_get_default :: "jval \<Rightarrow> string \<Rightarrow> jval \<Rightarrow> exc + jval" where
  "py_get_default (JObj kvs) k d = Inr (case map_of kvs k of None \<Rightarrow> d | Some v \<Rightarrow> v)"
| "py_get_default _ k d = Inl AttributeError"

definition py_get :: "jval \<Rightarrow> string \<Rightarrow> exc + jval" where
  "py_get x k = py_get_default x k JNull"

text \<open>\<^verbatim>\<open>x[k]\<close> with a string key \<open>k\<close>.\<close>

fun py_getitem :: "jval \<Rightarrow> string \<Rightarrow> exc + jval" where
  "py_getitem (JObj kvs) k = (case map_of kvs k of None \<Rightarrow> Inl KeyError | Some v \<Rightarrow> Inr v)"
| "py_getitem _ k = Inl TypeError"

text \<open>\<^verbatim>\<open>x[0]\<close>.\<close>

fun py_index0 :: "jval \<Rightarrow> exc + jval" where
  "py_index0 (JArr []) = Inl IndexError"
| "py_index0 (JArr (v # _)) = Inr v"
| "py_index0 (JStr []) = Inl IndexError"
| "py_index0 (JStr (c # _)) = Inr (JStr [c])"
| "py_index0 (JObj kvs) = Inl KeyError"
| "py_index0 _ = Inl TypeError"

text \<open>\<^verbatim>\<open>isinstance(x, dict)\<close> and \<^verbatim>\<open>isinstance(x, (int, float))\<close>; \<^verbatim>\<open>bool\<close> is a subclass
  of \<^verbatim>\<open>int\<close>.\<close>

fun is_dict :: "jval \<Rightarrow> bool" where
  "is_dict (JObj _) = True"
| "is_dict _ = False"

fun is_int_or_float :: "jval \<Rightarrow> bool" where
  "is_int_or_float (JInt _) = True"
| "is_int_or_float (JFloat _) = True"
| "is_int_or_float (JBool _) = True"
| "is_int_or_float _ = False"

subsection \<open>Datetimes\<close>

text \<open>
  A \<^verbatim>\<open>datetime\<close>: the wall-clock reading in microseconds since 0001-01-01T00:00:00, and
  the UTC offset of its \<^verbatim>\<open>tzinfo\<close> in microseconds, \<open>None\<close> for a naive datetime.
\<close>

record datetime =
  wall :: int
  tzinfo :: "int option"

definition dt_max :: int where
  "dt_max = 3652059 * 86400 * 1000000 - 1"

text \<open>The point in time an aware datetime denotes (the wall clock itself for a naive one).\<close>

definition instant :: "datetime \<Rightarrow> int" where
  "instant d = (case tzinfo d of None \<Rightarrow> wall d | Some off \<Rightarrow> wall d - off)"

text \<open>
  \<^verbatim>\<open>d.replace(tzinfo=utc) if d.tzinfo is None else d.astimezone(utc)\<close>. The conversion
  subtracts the offset and raises OverflowError when that leaves the range of dates.
\<close>

definition to_utc :: "datetime \<Rightarrow> exc + datetime" where
  "to_utc d =
     (case tzinfo d of
        None \<Rightarrow> Inr \<lparr>wall = wall d, tzinfo = Some 0\<rparr>
      | Some off \<Rightarrow>
          if 0 \<le> wall d - off \<and> wall d - off \<le> dt_max
          then Inr \<lparr>wall = wall d - off, tzinfo = Some 0\<rparr>
          else Inl OverflowError)"

text \<open>\<^verbatim>\<open>a <= b\<close> on datetimes: a naive and an aware one do not compare.\<close>

definition dt_le :: "datetime \<Rightarrow> datetime \<Rightarrow> exc + bool" where
  "dt_le a b =
     (if (tzinfo a = None) = (tzinfo b = None) then Inr (instant a \<le> instant b)
      else Inl TypeError)"

subsection \<open>What the interpreter and the standard library supply\<close>

text \<open>
  The conversions and the clock of the Python runtime are parameters of the model:
  \<^item> \<open>float_of\<close>, \<open>int_of\<close>: \<^verbatim>\<open>float(x)\<close>, \<^verbatim>\<open>int(x)\<close>;
  \<^item> \<open>fromisoformat\<close>: \<^verbatim>\<open>datetime.fromisoformat\<close> on a string;
  \<^item> \<open>utc_now\<close>: the reading of \<^verbatim>\<open>datetime.now(timezone.utc)\<close>, in microseconds;
  \<^item> \<open>coord_key\<close>: the string \<^verbatim>\<open>f"{lat:.6f},{lon:.6f}"\<close>;
  \<^item> \<open>zone_offset_now\<close>: \<^verbatim>\<open>int(datetime.now(ZoneInfo(tz)).utcoffset().total_seconds())\<close>;
  \<^item> \<open>zone_offset_at\<close>: the offset in seconds that \<^verbatim>\<open>ZoneInfo(tzid)\<close> gives the local
    date and time \<^verbatim>\<open>f"{date}T{time}"\<close>, \<open>None\<close> when the zone database is missing, an
    exception is raised on the way or the offset is \<^verbatim>\<open>None\<close>.
\<close>

record runtime =
  float_of :: "jval \<Rightarrow> exc + pyfloat"
  int_of :: "jval \<Rightarrow> exc + int"
  fromisoformat :: "string \<Rightarrow> exc + datetime"
  utc_now :: int
  coord_key :: "pyfloat \<Rightarrow> pyfloat \<Rightarrow> string"
  zone_offset_now :: "jval \<Rightarrow> exc + int"
  zone_offset_at :: "string \<Rightarrow> string \<Rightarrow> jval \<Rightarrow> int option"

section \<open>Period Selector (routers/analyze.py, function _current_period)\<close>

text \<open>
  \<^verbatim>\<open>
  def _current_period(periods, birth_dt=None, now=None):
      from datetime import datetime, timezone as dt_tz
      now = now or datetime.now(dt_tz.utc)
      if not isinstance(periods, list):
          return None
      # prefer periods that end after birth (ignore pre-birth entries)
      filtered = []
      for p in periods:
          try:
              s = datetime.fromisoformat(p.get("start"))
              e = datetime.fromisoformat(p.get("end"))
              # normalize to UTC for reliable comparison
              if s.tzinfo is None:
                  s = s.replace(tzinfo=dt_tz.utc)
              else:
                  s = s.astimezone(dt_tz.utc)
              if e.tzinfo is None:
                  e = e.replace(tzinfo=dt_tz.utc)
              else:
                  e = e.astimezone(dt_tz.utc)
              bd_ok = True
              if birth_dt is not None:
                  bd = birth_dt
                  if bd.tzinfo is None:
                      bd = bd.replace(tzinfo=dt_tz.utc)
                  else:
                      bd = bd.astimezone(dt_tz.utc)
                  bd_ok = e >= bd
              if bd_ok:
                  filtered.append((s, e, p))
          except Exception:
              continue
      for s, e, p in filtered:
          if s <= now <= e:
              return p
      # fallback: first after birth
      filtered.sort(key=lambda x: x[0])
      return filtered[0][2] if filtered else (periods[0] if periods else None)
  \<close>
\<close>

text \<open>\<^verbatim>\<open>datetime.fromisoformat(p.get(k))\<close>: the argument must be a string.\<close>

definition period_field :: "runtime \<Rightarrow> jval \<Rightarrow> string \<Rightarrow> exc + datetime" where
  "period_field rt p k =
     bindE (py_get p k) (\<lambda>v. case v of JStr s \<Rightarrow> fromisoformat rt s | _ \<Rightarrow> Inl TypeError)"

text \<open>
  The body of the \<^verbatim>\<open>try\<close> for one entry: \<open>Inl\<close> when an exception is raised (the
  entry is skipped), \<open>Inr None\<close> when the entry ends before birth, \<open>Inr (Some (s, e, p))\<close>
  when the triple is appended.
\<close>

definition normalize_entry ::
  "runtime \<Rightarrow> datetime option \<Rightarrow> jval \<Rightarrow> exc + (datetime \<times> datetime \<times> jval) option" where
  "normalize_entry rt birth_dt p =
     bindE (period_field rt p ''start'') (\<lambda>s0.
     bindE (period_field rt p ''end'') (\<lambda>e0.
     bindE (to_utc s0) (\<lambda>s.
     bindE (to_utc e0) (\<lambda>e.
     bindE (case birth_dt of
              None \<Rightarrow> Inr True
            | Some bd0 \<Rightarrow> bindE (to_utc bd0) (\<lambda>bd. dt_le bd e)) (\<lambda>bd_ok.
     Inr (if bd_ok then Some (s, e, p) else None))))))"

text \<open>The first loop: the list \<^verbatim>\<open>filtered\<close>, in the order of the input.\<close>

fun filter_periods ::
  "runtime \<Rightarrow> datetime option \<Rightarrow> jval list \<Rightarrow> (datetime \<times> datetime \<times> jval) list" where
  "filter_periods rt birth_dt [] = []"
| "filter_periods rt birth_dt (p # ps) =
     (case normalize_entry rt birth_dt p of
        Inr (Some t) \<Rightarrow> t # filter_periods rt birth_dt ps
      | _ \<Rightarrow> filter_periods rt birth_dt ps)"

text \<open>The second loop: \<^verbatim>\<open>s <= now <= e\<close> is \<^verbatim>\<open>s <= now and now <= e\<close>.\<close>

fun first_containing ::
  "datetime \<Rightarrow> (datetime \<times> datetime \<times> jval) list \<Rightarrow> exc + jval option" where
  "first_containing now [] = Inr None"
| "first_containing now ((s, e, p) # rest) =
     bindE (dt_le s now) (\<lambda>a.
       if a then bindE (dt_le now e) (\<lambda>b.
                   if b then Inr (Some p) else first_containing now rest)
       else first_containing now rest)"

text \<open>
  \<^verbatim>\<open>now = now or datetime.now(dt_tz.utc)\<close>: a datetime is always true, so this is the
  argument when one is given, and the clock's aware reading otherwise.
\<close>

definition reference_now :: "runtime \<Rightarrow> datetime option \<Rightarrow> datetime" where
  "reference_now rt now_arg =
     (case now_arg of
        Some n \<Rightarrow> n
      | None \<Rightarrow> \<lparr>wall = utc_now rt, tzinfo = Some 0\<rparr>)"

text \<open>
  \<^verbatim>\<open>list.sort\<close> is stable, as \<open>sort_key\<close> is; the keys are aware datetimes and compare
  by their instants. The result \<^verbatim>\<open>None\<close> is \<open>JNull\<close>.
\<close>

text \<open>
  For the statements below: the interval of a triple of \<^verbatim>\<open>filtered\<close> contains the instant
  of \<open>now\<close>, both ends included.
\<close>

definition covers :: "datetime \<Rightarrow> datetime \<times> datetime \<times> jval \<Rightarrow> bool" where
  "covers now t = (instant (fst t) \<le> instant now \<and> instant now \<le> instant (fst (snd t)))"




definition current_period ::
  "runtime \<Rightarrow> jval \<Rightarrow> datetime option \<Rightarrow> datetime option \<Rightarrow> exc + jval" where
  "current_period rt periods birth_dt now_arg =
     (let now = reference_now rt now_arg
      in case periods of
           JArr ps \<Rightarrow>
             (let filtered = filter_periods rt birth_dt ps
              in bindE (first_containing now filtered) (\<lambda>hit.
                   case hit of
                     Some p \<Rightarrow> Inr p
                   | None \<Rightarrow>
                       (case sort_key (\<lambda>t. instant (fst t)) filtered of
                          t # _ \<Rightarrow> Inr (snd (snd t))
                        | [] \<Rightarrow> (case ps of p0 # _ \<Rightarrow> Inr p0 | [] \<Rightarrow> Inr JNull))))
         | _ \<Rightarrow> Inr JNull)"

section \<open>The network and the caches\<close>

text \<open>
  The HTTP requests the resolvers send, and what comes back: the call raises a transport
  error, or there is a response with a status code and a body, \<open>None\<close> when the body is
  not JSON. The network is a parameter of the model.
\<close>

datatype request =
    LocationIQSearch string string
  | NominatimSearch string
  | OpenMeteoSearch string
  | LocationIQTimezone string pyfloat pyfloat
  | TimeApiCoordinate pyfloat pyfloat
  | OpenMeteoTimezone pyfloat pyfloat
  | OpenMeteoSearchCoords pyfloat pyfloat

datatype http_outcome = TransportError | Response nat "jval option"

type_synonym network = "request \<Rightarrow> http_outcome"

text \<open>
  \<^verbatim>\<open>r = httpx.get(...); r.raise_for_status(); r.json()\<close>: the status error of a response
  outside 2xx is an \<^verbatim>\<open>httpx.HTTPError\<close>, the decoding error of the body a ValueError.
\<close>

definition fetch_json :: "http_outcome \<Rightarrow> exc + jval" where
  "fetch_json r =
     (case r of
        TransportError \<Rightarrow> Inl HTTPError
      | Response status body \<Rightarrow>
          if 200 \<le> status \<and> status < 300
          then (case body of None \<Rightarrow> Inl ValueError | Some v \<Rightarrow> Inr v)
          else Inl HTTPError)"

text \<open>
  One provider block yields \<open>Inr (Some (result, cache))\<close> when it returns, \<open>Inr None\<close> when
  control leaves it for the next step, \<open>Inl e\<close> when \<open>e\<close> is raised in it.
  \<^verbatim>\<open>except httpx.HTTPError: pass\<close> turns that one exception into falling through.
\<close>

definition catch_http :: "exc + 'a option \<Rightarrow> exc + 'a option" where
  "catch_http m = (case m of Inl HTTPError \<Rightarrow> Inr None | _ \<Rightarrow> m)"

definition chain ::
  "'c \<Rightarrow> exc + ('a \<times> 'c) option \<Rightarrow> (exc + 'a option) \<times> 'c \<Rightarrow> (exc + 'a option) \<times> 'c" where
  "chain cache block rest =
     (case block of
        Inl e \<Rightarrow> (Inl e, cache)
      | Inr (Some (out, cache')) \<Rightarrow> (Inr (Some out), cache')
      | Inr None \<Rightarrow> rest)"

text \<open>\<^verbatim>\<open>settings.locationiq_key\<close> is a string or \<^verbatim>\<open>None\<close>; the empty string is false.\<close>

definition key_set :: "string option \<Rightarrow> bool" where
  "key_set k = (case k of None \<Rightarrow> False | Some s \<Rightarrow> s \<noteq> [])"

section \<open>Geocoding Resolver (utils/geo.py, geocode_location)\<close>

text \<open>
  The returned dict: \<open>geo_timezone\<close> is \<open>None\<close> when the dict has no key
  \<^verbatim>\<open>"timezone"\<close>. A cache entry is \<^verbatim>\<open>(latitude, longitude, display_name or location)\<close>.
\<close>

record geo_result =
  geo_latitude :: pyfloat
  geo_longitude :: pyfloat
  geo_display_name :: jval
  geo_timezone :: "jval option"

type_synonym geo_cache = "string \<rightharpoonup> (pyfloat \<times> pyfloat \<times> jval)"

text \<open>
  \<^verbatim>\<open>{"latitude": float(item[lat]), "longitude": float(item[lon]), "display_name": item.get(name)}\<close>
\<close>

definition geo_from_item :: "runtime \<Rightarrow> jval \<Rightarrow> string \<Rightarrow> string \<Rightarrow> string \<Rightarrow> exc + geo_result" where
  "geo_from_item rt item lat_key lon_key name_key =
     bindE (py_getitem item lat_key) (\<lambda>a.
     bindE (float_of rt a) (\<lambda>lat.
     bindE (py_getitem item lon_key) (\<lambda>b.
     bindE (float_of rt b) (\<lambda>lon.
     bindE (py_get item name_key) (\<lambda>n.
     Inr \<lparr>geo_latitude = lat, geo_longitude = lon, geo_display_name = n,
          geo_timezone = None\<rparr>)))))"

definition geo_store :: "geo_cache \<Rightarrow> string \<Rightarrow> geo_result \<Rightarrow> geo_cache" where
  "geo_store cache location out =
     cache(location \<mapsto> (geo_latitude out, geo_longitude out,
                          py_or (geo_display_name out) (JStr location)))"

text \<open>
  \<^verbatim>\<open>
      if settings.locationiq_key:
          try:
              r = httpx.get("https://us1.locationiq.com/v1/search", params={...}, timeout=20)
              r.raise_for_status()
              arr = r.json()
              if arr:
                  item = arr[0]
                  out = {"latitude": float(item["lat"]), "longitude": float(item["lon"]),
                         "display_name": item.get("display_name")}
                  _GEO_CACHE[location] = (out["latitude"], out["longitude"],
                                          out.get("display_name") or location)
                  return out
          except httpx.HTTPError:
              pass
  \<close>
  The block of Nominatim is the same with its own request.
\<close>

definition search_block ::
  "runtime \<Rightarrow> http_outcome \<Rightarrow> geo_cache \<Rightarrow> string \<Rightarrow> exc + (geo_result \<times> geo_cache) option" where
  "search_block rt response cache location =
     catch_http
       (bindE (fetch_json response) (\<lambda>arr.
          if truthy arr
          then bindE (py_index0 arr) (\<lambda>item.
               bindE (geo_from_item rt item ''lat'' ''lon'' ''display_name'') (\<lambda>out.
               Inr (Some (out, geo_store cache location out))))
          else Inr None))"

text \<open>
  \<^verbatim>\<open>
      try:
          r = httpx.get("https://geocoding-api.open-meteo.com/v1/search", ...)
          r.raise_for_status()
          data = r.json()
          if data and data.get("results"):
              item = data["results"][0]
              out = {"latitude": float(item["latitude"]), "longitude": float(item["longitude"]),
                     "display_name": item.get("name")}
              if item.get("timezone"):
                  out["timezone"] = item.get("timezone")
              _GEO_CACHE[location] = (...)
              return out
      except httpx.HTTPError:
          pass
  \<close>
\<close>

definition open_meteo_block ::
  "runtime \<Rightarrow> http_outcome \<Rightarrow> geo_cache \<Rightarrow> string \<Rightarrow> exc + (geo_result \<times> geo_cache) option" where
  "open_meteo_block rt response cache location =
     catch_http
       (bindE (fetch_json response) (\<lambda>data.
          if \<not> truthy data then Inr None
          else bindE (py_get data ''results'') (\<lambda>results.
            if \<not> truthy results then Inr None
            else bindE (py_getitem data ''results'') (\<lambda>rs.
                 bindE (py_index0 rs) (\<lambda>item.
                 bindE (geo_from_item rt item ''latitude'' ''longitude'' ''name'') (\<lambda>out0.
                 bindE (py_get item ''timezone'') (\<lambda>tz.
                 let out = (if truthy tz then out0\<lparr>geo_timezone := Some tz\<rparr> else out0)
                 in Inr (Some (out, geo_store cache location out)))))))))"

text \<open>
  The whole resolver: the keyed provider when a key is set, then the cache, then
  Nominatim, then Open-Meteo, then \<^verbatim>\<open>None\<close>. It returns the result or the exception that
  escapes, and the cache as it is afterwards.
\<close>

definition geocode_location ::
  "runtime \<Rightarrow> string option \<Rightarrow> network \<Rightarrow> geo_cache \<Rightarrow> string
     \<Rightarrow> (exc + geo_result option) \<times> geo_cache" where
  "geocode_location rt locationiq_key net cache location =
     chain cache
       (case locationiq_key of
          None \<Rightarrow> Inr None
        | Some k \<Rightarrow>
            if k \<noteq> []
            then search_block rt (net (LocationIQSearch k location)) cache location
            else Inr None)
       (case cache location of
          Some (lat, lon, name) \<Rightarrow>
            (Inr (Some \<lparr>geo_latitude = lat, geo_longitude = lon, geo_display_name = name,
                        geo_timezone = None\<rparr>), cache)
        | None \<Rightarrow>
            chain cache (search_block rt (net (NominatimSearch location)) cache location)
              (chain cache (open_meteo_block rt (net (OpenMeteoSearch location)) cache location)
                 (Inr None, cache)))"

section \<open>Timezone Resolver (utils/geo.py, timezone_for_coords)\<close>

text \<open>
  The returned dict \<^verbatim>\<open>{"timeZone": tz, "offset": off}\<close>; a cache entry is \<^verbatim>\<open>(tz, off)\<close>.
  Both components are whatever the provider sent, or strings the resolver made.
\<close>

record tz_result =
  timeZone :: jval
  offset :: jval

type_synonym tz_cache = "string \<rightharpoonup> (jval \<times> jval)"

definition tz_return :: "tz_cache \<Rightarrow> string \<Rightarrow> jval \<Rightarrow> jval \<Rightarrow> exc + (tz_result \<times> tz_cache) option" where
  "tz_return cache key tz off =
     Inr (Some (\<lparr>timeZone = tz, offset = off\<rparr>, cache(key \<mapsto> (tz, off))))"

text \<open>\<^verbatim>\<open>d.get(k1) or d.get(k2) or ...\<close>, evaluated from the left.\<close>

fun get_or :: "jval \<Rightarrow> string list \<Rightarrow> exc + jval" where
  "get_or d [] = Inr JNull"
| "get_or d [k] = py_get d k"
| "get_or d (k # ks) = bindE (py_get d k) (\<lambda>v. if truthy v then Inr v else get_or d ks)"

text \<open>\<^verbatim>\<open>format_offset(int(x))\<close> as a string value.\<close>

definition offset_of_seconds :: "runtime \<Rightarrow> jval \<Rightarrow> exc + jval" where
  "offset_of_seconds rt x = bindE (int_of rt x) (\<lambda>sec. Inr (JStr (format_offset sec)))"

text \<open>
  \<^verbatim>\<open>
      if settings.locationiq_key:
          try:
              r = httpx.get("https://us1.locationiq.com/v1/timezone.php", ...)
              r.raise_for_status()
              data = r.json()
              tz = data.get("timezone") or data.get("zone_name") or data.get("timeZone")
              if isinstance(tz, dict):
                  tz = tz.get("name") or tz.get("zone_name")
              off = data.get("utc_offset") or data.get("offset")
              if off is None:
                  sec = data.get("gmt_offset") or data.get("raw_offset")
                  if isinstance(sec, (int, float)):
                      off = format_offset(int(sec))
              if tz and off:
                  _TZ_CACHE[key] = (tz, off)
                  return {"timeZone": tz, "offset": off}
          except httpx.HTTPError:
              pass
  \<close>
\<close>

definition locationiq_tz_block ::
  "runtime \<Rightarrow> http_outcome \<Rightarrow> tz_cache \<Rightarrow> string \<Rightarrow> exc + (tz_result \<times> tz_cache) option" where
  "locationiq_tz_block rt response cache key =
     catch_http
       (bindE (fetch_json response) (\<lambda>data.
        bindE (get_or data [''timezone'', ''zone_name'', ''timeZone'']) (\<lambda>tz0.
        bindE (if is_dict tz0 then get_or tz0 [''name'', ''zone_name''] else Inr tz0) (\<lambda>tz.
        bindE (get_or data [''utc_offset'', ''offset'']) (\<lambda>off0.
        bindE (if off0 = JNull
               then bindE (get_or data [''gmt_offset'', ''raw_offset'']) (\<lambda>sec.
                      if is_int_or_float sec then offset_of_seconds rt sec else Inr off0)
               else Inr off0) (\<lambda>off.
        if truthy tz \<and> truthy off then tz_return cache key tz off else Inr None))))))"

text \<open>
  \<^verbatim>\<open>
      try:
          r = httpx.get("https://timeapi.io/api/TimeZone/coordinate", ...)
          r.raise_for_status()
          data = r.json()
          tz = data.get("timeZone")
          offset_sec = data.get("standardUtcOffset", {}).get("seconds")
          if tz and offset_sec is not None:
              off = format_offset(int(offset_sec))
              _TZ_CACHE[key] = (tz, off)
              return {"timeZone": tz, "offset": off}
          offset_sec = data.get("currentUtcOffset", {}).get("seconds")
          if tz and offset_sec is not None:
              (the same three lines)
      except httpx.HTTPError:
          pass
  \<close>
\<close>

definition nested_seconds :: "jval \<Rightarrow> string \<Rightarrow> exc + jval" where
  "nested_seconds data k = bindE (py_get_default data k (JObj [])) (\<lambda>d. py_get d ''seconds'')"

definition timeapi_block ::
  "runtime \<Rightarrow> http_outcome \<Rightarrow> tz_cache \<Rightarrow> string \<Rightarrow> exc + (tz_result \<times> tz_cache) option" where
  "timeapi_block rt response cache key =
     catch_http
       (bindE (fetch_json response) (\<lambda>data.
        bindE (py_get data ''timeZone'') (\<lambda>tz.
        bindE (nested_seconds data ''standardUtcOffset'') (\<lambda>std.
        if truthy tz \<and> std \<noteq> JNull
        then bindE (offset_of_seconds rt std) (\<lambda>off. tz_return cache key tz off)
        else bindE (nested_seconds data ''currentUtcOffset'') (\<lambda>cur.
             if truthy tz \<and> cur \<noteq> JNull
             then bindE (offset_of_seconds rt cur) (\<lambda>off. tz_return cache key tz off)
             else Inr None)))))"

text \<open>
  \<^verbatim>\<open>
      try:
          r = httpx.get("https://api.open-meteo.com/v1/timezone", ...)
          r.raise_for_status()
          data = r.json()
          tz = data.get("timezone")
          offset_sec = data.get("utc_offset_seconds")
          if tz and offset_sec is not None:
              off = format_offset(int(offset_sec))
              _TZ_CACHE[key] = (tz, off)
              return {"timeZone": tz, "offset": off}
      except httpx.HTTPError:
          pass
  \<close>
\<close>

definition open_meteo_tz_block ::
  "runtime \<Rightarrow> http_outcome \<Rightarrow> tz_cache \<Rightarrow> string \<Rightarrow> exc + (tz_result \<times> tz_cache) option" where
  "open_meteo_tz_block rt response cache key =
     catch_http
       (bindE (fetch_json response) (\<lambda>data.
        bindE (py_get data ''timezone'') (\<lambda>tz.
        bindE (py_get data ''utc_offset_seconds'') (\<lambda>offset_sec.
        if truthy tz \<and> offset_sec \<noteq> JNull
        then bindE (offset_of_seconds rt offset_sec) (\<lambda>off. tz_return cache key tz off)
        else Inr None))))"

text \<open>
  \<^verbatim>\<open>
      try:
          r = httpx.get("https://geocoding-api.open-meteo.com/v1/search",
                        params={"name": f"{lat},{lon}", "count": 1}, timeout=20)
          if r.status_code == 200:
              data = r.json()
              if data and data.get("results"):
                  tz = data["results"][0].get("timezone")
                  if tz:
                      off = "+05:30" if tz == "Asia/Kolkata" else None
                      if not off:
                          try:
                              aware = datetime.now(ZoneInfo(tz))
                              sec = int(aware.utcoffset().total_seconds())
                              off = format_offset(sec)
                          except Exception:
                              off = "+00:00"
                      _TZ_CACHE[key] = (tz, off)
                      return {"timeZone": tz, "offset": off}
      except httpx.HTTPError:
          pass
  \<close>
\<close>

definition zone_offset_or_utc :: "runtime \<Rightarrow> jval \<Rightarrow> jval" where
  "zone_offset_or_utc rt tz =
     (if tz = JStr ''Asia/Kolkata'' then JStr ''+05:30''
      else case zone_offset_now rt tz of
             Inr sec \<Rightarrow> JStr (format_offset sec)
           | Inl _ \<Rightarrow> JStr ''+00:00'')"

definition reverse_geocode_block ::
  "runtime \<Rightarrow> http_outcome \<Rightarrow> tz_cache \<Rightarrow> string \<Rightarrow> exc + (tz_result \<times> tz_cache) option" where
  "reverse_geocode_block rt response cache key =
     catch_http
       (case response of
          TransportError \<Rightarrow> Inl HTTPError
        | Response status body \<Rightarrow>
            if status \<noteq> 200 then Inr None
            else bindE (case body of None \<Rightarrow> Inl ValueError | Some v \<Rightarrow> Inr v) (\<lambda>data.
              if \<not> truthy data then Inr None
              else bindE (py_get data ''results'') (\<lambda>results.
                if \<not> truthy results then Inr None
                else bindE (py_getitem data ''results'') (\<lambda>rs.
                     bindE (py_index0 rs) (\<lambda>item.
                     bindE (py_get item ''timezone'') (\<lambda>tz.
                     if truthy tz then tz_return cache key tz (zone_offset_or_utc rt tz)
                     else Inr None))))))"

text \<open>
  \<^verbatim>\<open>
      try:
          if 6.0 <= float(lat) <= 37.5 and 68.0 <= float(lon) <= 98.0:
              tz = "Asia/Kolkata"; off = "+05:30"
              _TZ_CACHE[key] = (tz, off)
              return {"timeZone": tz, "offset": off}
      except Exception:
          pass
      return None
  \<close>
\<close>

definition in_india_box :: "pyfloat \<Rightarrow> pyfloat \<Rightarrow> bool" where
  "in_india_box lat lon =
     (float_le (Finite 6.0) lat \<and> float_le lat (Finite 37.5) \<and>
      float_le (Finite 68.0) lon \<and> float_le lon (Finite 98.0))"

definition bounding_box_block ::
  "tz_cache \<Rightarrow> string \<Rightarrow> pyfloat \<Rightarrow> pyfloat \<Rightarrow> exc + (tz_result \<times> tz_cache) option" where
  "bounding_box_block cache key lat lon =
     (if in_india_box lat lon
      then tz_return cache key (JStr ''Asia/Kolkata'') (JStr ''+05:30'')
      else Inr None)"

text \<open>
  The whole resolver: the cache under \<^verbatim>\<open>key = f"{lat:.6f},{lon:.6f}"\<close> first, then the
  keyed provider when a key is set, timeapi.io, the two Open-Meteo endpoints and the
  bounding box.
\<close>

definition timezone_for_coords ::
  "runtime \<Rightarrow> string option \<Rightarrow> network \<Rightarrow> tz_cache \<Rightarrow> pyfloat \<Rightarrow> pyfloat
     \<Rightarrow> (exc + tz_result option) \<times> tz_cache" where
  "timezone_for_coords rt locationiq_key net cache lat lon =
     (let key = coord_key rt lat lon
      in case cache key of
           Some (tzid, off) \<Rightarrow> (Inr (Some \<lparr>timeZone = tzid, offset = off\<rparr>), cache)
         | None \<Rightarrow>
             chain cache
               (case locationiq_key of
                  None \<Rightarrow> Inr None
                | Some k \<Rightarrow>
                    if k \<noteq> []
                    then locationiq_tz_block rt (net (LocationIQTimezone k lat lon)) cache key
                    else Inr None)
            (chain cache (timeapi_block rt (net (TimeApiCoordinate lat lon)) cache key)
            (chain cache (open_meteo_tz_block rt (net (OpenMeteoTimezone lat lon)) cache key)
            (chain cache (reverse_geocode_block rt (net (OpenMeteoSearchCoords lat lon)) cache key)
            (chain cache (bounding_box_block cache key lat lon)
               (Inr None, cache))))))"

section \<open>Resolution of a birth record (routers/compute.py, compute)\<close>

text \<open>
  \<^verbatim>\<open>
  def offset_from_tzid(date_str, time_str, tzid):
      if ZoneInfo is None:
          return None
      t = time_str if len(time_str.split(":")) == 3 else f"{time_str}:00"
      try:
          dt = datetime.fromisoformat(f"{date_str}T{t}")
          tz = ZoneInfo(tzid)
          aware = dt.replace(tzinfo=tz)
          off = aware.utcoffset()
          if off is None:
              return None
          return format_offset(int(off.total_seconds()))
      except Exception:
          return None
  \<close>
\<close>

definition offset_from_tzid :: "runtime \<Rightarrow> string \<Rightarrow> string \<Rightarrow> jval \<Rightarrow> string option" where
  "offset_from_tzid rt date_str time_str tzid =
     (let t = (if length (filter (\<lambda>c. c = CHR '':'') time_str) = 2 then time_str
               else time_str @ '':00'')
      in map_option format_offset (zone_offset_at rt date_str t tzid))"

text \<open>
  The fields of \<^verbatim>\<open>BirthInput\<close> (schemas.py). \<open>timezone\<close> is a string or \<^verbatim>\<open>None\<close> in
  the request; the resolution may assign it whatever offset the timezone resolver returns.
\<close>

record birth =
  date :: string
  time :: string
  timezone :: jval
  latitude :: "pyfloat option"
  longitude :: "pyfloat option"
  location :: "string option"
  ayanamsa :: int
  la :: string

text \<open>The \<^verbatim>\<open>HTTPException\<close>s of \<^verbatim>\<open>compute\<close>, with status code and detail.\<close>

datatype detail = CouldNotGeocode | TimezoneUnresolved | LocationResolutionFailed exc

datatype http_exception = HTTPException nat detail

datatype raised = RaisedHTTP http_exception | Raised exc

record caches =
  geo_entries :: geo_cache
  tz_entries :: tz_cache

text \<open>
  \<^verbatim>\<open>
          if (b.latitude is None or b.longitude is None) and b.location:
              geo = geocode_location(b.location)
              if not geo:
                  raise HTTPException(status_code=400, detail="Could not geocode location")
              b.latitude = geo["latitude"]
              b.longitude = geo["longitude"]
              tzid = geo.get("timezone") if isinstance(geo, dict) else None
              if (not b.timezone) and tzid:
                  off = offset_from_tzid(b.date, b.time, tzid) or None
                  if off:
                      b.timezone = off
  \<close>
\<close>

definition geocode_step ::
  "runtime \<Rightarrow> string option \<Rightarrow> network \<Rightarrow> caches \<Rightarrow> birth \<Rightarrow> (raised + birth) \<times> caches" where
  "geocode_step rt locationiq_key net cs b =
     (case location b of
        None \<Rightarrow> (Inr b, cs)
      | Some loc \<Rightarrow>
          if (latitude b = None \<or> longitude b = None) \<and> loc \<noteq> []
          then (case geocode_location rt locationiq_key net (geo_entries cs) loc of
                  (Inl e, gc) \<Rightarrow> (Inl (Raised e), cs\<lparr>geo_entries := gc\<rparr>)
                | (Inr None, gc) \<Rightarrow>
                    (Inl (RaisedHTTP (HTTPException 400 CouldNotGeocode)), cs\<lparr>geo_entries := gc\<rparr>)
                | (Inr (Some geo), gc) \<Rightarrow>
                    (let b1 = b\<lparr>latitude := Some (geo_latitude geo),
                                longitude := Some (geo_longitude geo)\<rparr>;
                         tzid = (case geo_timezone geo of None \<Rightarrow> JNull | Some v \<Rightarrow> v);
                         b2 = (if \<not> truthy (timezone b1) \<and> truthy tzid
                               then (case offset_from_tzid rt (date b1) (time b1) tzid of
                                       None \<Rightarrow> b1
                                     | Some off \<Rightarrow>
                                         if off \<noteq> [] then b1\<lparr>timezone := JStr off\<rparr> else b1)
                               else b1)
                     in (Inr b2, cs\<lparr>geo_entries := gc\<rparr>)))
          else (Inr b, cs))"

text \<open>
  \<^verbatim>\<open>
          if (not b.timezone) and (b.latitude is not None and b.longitude is not None):
              tz = timezone_for_coords(b.latitude, b.longitude)
              if tz and tz.get("offset"):
                  b.timezone = tz["offset"]
  \<close>
\<close>

definition timezone_step ::
  "runtime \<Rightarrow> string option \<Rightarrow> network \<Rightarrow> caches \<Rightarrow> birth \<Rightarrow> (raised + birth) \<times> caches" where
  "timezone_step rt locationiq_key net cs b =
     (case (latitude b, longitude b) of
        (Some lat, Some lon) \<Rightarrow>
          if \<not> truthy (timezone b)
          then (case timezone_for_coords rt locationiq_key net (tz_entries cs) lat lon of
                  (Inl e, tc) \<Rightarrow> (Inl (Raised e), cs\<lparr>tz_entries := tc\<rparr>)
                | (Inr None, tc) \<Rightarrow> (Inr b, cs\<lparr>tz_entries := tc\<rparr>)
                | (Inr (Some tz), tc) \<Rightarrow>
                    (Inr (if truthy (offset tz) then b\<lparr>timezone := offset tz\<rparr> else b),
                     cs\<lparr>tz_entries := tc\<rparr>))
          else (Inr b, cs)
      | _ \<Rightarrow> (Inr b, cs))"

text \<open>
  \<^verbatim>\<open>
          if not b.timezone:
              raise HTTPException(status_code=400, detail="timezone_unresolved: ...")
  \<close>
\<close>

definition offset_check :: "birth \<Rightarrow> raised + birth" where
  "offset_check b =
     (if \<not> truthy (timezone b) then Inl (RaisedHTTP (HTTPException 400 TimezoneUnresolved))
      else Inr b)"

text \<open>
  The \<^verbatim>\<open>try\<close> statement around the three steps:
  \<^verbatim>\<open>
      except HTTPException:
          raise
      except Exception as e:
          raise HTTPException(status_code=400, detail=f"Location resolution failed: {e}")
  \<close>
\<close>

definition resolve_birth ::
  "runtime \<Rightarrow> string option \<Rightarrow> network \<Rightarrow> caches \<Rightarrow> birth \<Rightarrow> (http_exception + birth) \<times> caches" where
  "resolve_birth rt locationiq_key net cs b =
     (let (r, cs') =
            (case geocode_step rt locationiq_key net cs b of
               (Inl x, cs1) \<Rightarrow> (Inl x, cs1)
             | (Inr b1, cs1) \<Rightarrow>
                 (case timezone_step rt locationiq_key net cs1 b1 of
                    (Inl x, cs2) \<Rightarrow> (Inl x, cs2)
                  | (Inr b2, cs2) \<Rightarrow> (offset_check b2, cs2)))
      in (case r of
            Inl (RaisedHTTP h) \<Rightarrow> Inl h
          | Inl (Raised e) \<Rightarrow> Inl (HTTPException 400 (LocationResolutionFailed e))
          | Inr b' \<Rightarrow> Inr b',
          cs'))"

text \<open>
  \<^verbatim>\<open>compute\<close>: the resolution, then the requests to the astrology provider and the
  response built from them. That second part (\<^verbatim>\<open>providers/prokerala.py\<close> and the rest of
  the handler) is the parameter \<open>chart\<close>, a function of the resolved birth record; it is
  reached only when the resolution raises nothing. The handler constructs the provider
  object before the resolution; the constructor is taken to return.
\<close>

definition compute ::
  "runtime \<Rightarrow> string option \<Rightarrow> network \<Rightarrow> (birth \<Rightarrow> 'r) \<Rightarrow> caches \<Rightarrow> birth
     \<Rightarrow> (http_exception + 'r) \<times> caches" where
  "compute rt locationiq_key net chart cs b =
     (case resolve_birth rt locationiq_key net cs b of
        (Inl h, cs') \<Rightarrow> (Inl h, cs')
      | (Inr b', cs') \<Rightarrow> (Inr (chart b'), cs'))"

section \<open>A runtime for the examples\<close>

text \<open>
  The examples below run the model on concrete inputs and need a concrete runtime. This one
  reads the plain forms of each argument and rejects the rest with the exception Python
  raises on a malformed argument; Python itself accepts more spellings (exponents, white
  space, further ISO 8601 forms). The general theorems hold for every runtime.
\<close>

definition number :: "string \<Rightarrow> nat option" where
  "number s =
     (if s \<noteq> [] \<and> list_all is_digit s
      then Some (foldl (\<lambda>a c. 10 * a + (of_char c - 48)) 0 s) else None)"

definition is_leap :: "int \<Rightarrow> bool" where
  "is_leap y = (y mod 4 = 0 \<and> (y mod 100 \<noteq> 0 \<or> y mod 400 = 0))"

definition days_in_month :: "int \<Rightarrow> int \<Rightarrow> int" where
  "days_in_month y m =
     (if m = 2 then (if is_leap y then 29 else 28)
      else if m = 4 \<or> m = 6 \<or> m = 9 \<or> m = 11 then 30 else 31)"

text \<open>Days from 0001-01-01 to the given date of the proleptic Gregorian calendar.\<close>

definition days_before_year :: "int \<Rightarrow> int" where
  "days_before_year y = (y - 1) * 365 + (y - 1) div 4 - (y - 1) div 100 + (y - 1) div 400"

definition days_before_month :: "int \<Rightarrow> int \<Rightarrow> int" where
  "days_before_month y m =
     [0, 31, 59, 90, 120, 151, 181, 212, 243, 273, 304, 334] ! nat (m - 1)
       + (if 2 < m \<and> is_leap y then 1 else 0)"

definition ymd_days :: "int \<Rightarrow> int \<Rightarrow> int \<Rightarrow> int" where
  "ymd_days y m d = days_before_year y + days_before_month y m + (d - 1)"

definition parse_date :: "string \<Rightarrow> int option" where
  "parse_date s =
     (case s of
        [y1, y2, y3, y4, a, m1, m2, b, d1, d2] \<Rightarrow>
          (case (number [y1, y2, y3, y4], number [m1, m2], number [d1, d2]) of
             (Some y, Some m, Some d) \<Rightarrow>
               if a = CHR ''-'' \<and> b = CHR ''-'' \<and> 1 \<le> y \<and> 1 \<le> m \<and> m \<le> 12 \<and>
                  1 \<le> d \<and> int d \<le> days_in_month (int y) (int m)
               then Some (ymd_days (int y) (int m) (int d)) else None
           | _ \<Rightarrow> None)
      | _ \<Rightarrow> None)"

definition parse_time :: "string \<Rightarrow> nat option" where
  "parse_time s =
     (case s of
        [h1, h2, a, m1, m2, b, s1, s2] \<Rightarrow>
          (case (number [h1, h2], number [m1, m2], number [s1, s2]) of
             (Some h, Some m, Some sec) \<Rightarrow>
               if a = CHR '':'' \<and> b = CHR '':'' \<and> h < 24 \<and> m < 60 \<and> sec < 60
               then Some (h * 3600 + m * 60 + sec) else None
           | _ \<Rightarrow> None)
      | _ \<Rightarrow> None)"

definition parse_offset :: "string \<Rightarrow> int option" where
  "parse_offset s =
     (case s of
        [sg, h1, h2, a, m1, m2] \<Rightarrow>
          (case (number [h1, h2], number [m1, m2]) of
             (Some h, Some m) \<Rightarrow>
               if (sg = CHR ''+'' \<or> sg = CHR ''-'') \<and> a = CHR '':'' \<and> h < 24 \<and> m < 60
               then Some ((if sg = CHR ''-'' then - 1 else 1) * int (h * 3600 + m * 60))
               else None
           | _ \<Rightarrow> None)
      | _ \<Rightarrow> None)"

text \<open>
  \<^verbatim>\<open>datetime.fromisoformat\<close> on \<^verbatim>\<open>YYYY-MM-DD\<close>, \<^verbatim>\<open>YYYY-MM-DDTHH:MM:SS\<close> and
  \<^verbatim>\<open>YYYY-MM-DDTHH:MM:SS+HH:MM\<close> (any character may stand for the \<^verbatim>\<open>T\<close>).
\<close>

definition basic_fromisoformat :: "string \<Rightarrow> exc + datetime" where
  "basic_fromisoformat s =
     (case parse_date (take 10 s) of
        None \<Rightarrow> Inl ValueError
      | Some days \<Rightarrow>
          (case drop 10 s of
             [] \<Rightarrow> Inr \<lparr>wall = days * 86400 * 1000000, tzinfo = None\<rparr>
           | sep # r \<Rightarrow>
               (case parse_time (take 8 r) of
                  None \<Rightarrow> Inl ValueError
                | Some secs \<Rightarrow>
                    (case drop 8 r of
                       [] \<Rightarrow> Inr \<lparr>wall = (days * 86400 + int secs) * 1000000,
                                 tzinfo = None\<rparr>
                     | z \<Rightarrow>
                         (case parse_offset z of
                            None \<Rightarrow> Inl ValueError
                          | Some off \<Rightarrow>
                              Inr \<lparr>wall = (days * 86400 + int secs) * 1000000,
                                   tzinfo = Some (off * 1000000)\<rparr>)))))"

text \<open>A decimal numeral \<^verbatim>\<open>[-]digits[.digits]\<close> as the number it writes.\<close>

definition unsigned_decimal :: "string \<Rightarrow> rat option" where
  "unsigned_decimal s =
     (let ip = takeWhile (\<lambda>c. c \<noteq> CHR ''.'') s; rest = dropWhile (\<lambda>c. c \<noteq> CHR ''.'') s
      in case rest of
           [] \<Rightarrow> map_option of_nat (number ip)
         | _ # fp \<Rightarrow>
             (case (number ip, number fp) of
                (Some a, Some b) \<Rightarrow> Some (of_nat a + of_nat b / 10 ^ length fp)
              | _ \<Rightarrow> None))"

definition decimal :: "string \<Rightarrow> rat option" where
  "decimal s =
     (case s of
        [] \<Rightarrow> None
      | c # cs \<Rightarrow> if c = CHR ''-'' then map_option uminus (unsigned_decimal cs)
                  else unsigned_decimal s)"

text \<open>\<^verbatim>\<open>float(x)\<close>, without the rounding of a decimal numeral to the nearest double.\<close>

fun basic_float :: "jval \<Rightarrow> exc + pyfloat" where
  "basic_float (JFloat f) = Inr f"
| "basic_float (JInt i) = Inr (Finite (of_int i))"
| "basic_float (JBool b) = Inr (Finite (if b then 1 else 0))"
| "basic_float (JStr s) =
     (case decimal s of None \<Rightarrow> Inl ValueError | Some q \<Rightarrow> Inr (Finite (of_rat q)))"
| "basic_float _ = Inl TypeError"

text \<open>\<^verbatim>\<open>int(x)\<close>: a float is cut towards zero, a string must be a decimal integer.\<close>

fun basic_int :: "jval \<Rightarrow> exc + int" where
  "basic_int (JInt i) = Inr i"
| "basic_int (JBool b) = Inr (if b then 1 else 0)"
| "basic_int (JFloat (Finite x)) = Inr (if 0 \<le> x then \<lfloor>x\<rfloor> else \<lceil>x\<rceil>)"
| "basic_int (JFloat NaN) = Inl ValueError"
| "basic_int (JFloat _) = Inl OverflowError"
| "basic_int (JStr s) =
     (case s of
        [] \<Rightarrow> Inl ValueError
      | c # cs \<Rightarrow>
          (case (if c = CHR ''-'' then map_option (\<lambda>n. - int n) (number cs)
                 else map_option int (number s)) of
             None \<Rightarrow> Inl ValueError
           | Some i \<Rightarrow> Inr i))"
| "basic_int _ = Inl TypeError"

text \<open>
  \<^verbatim>\<open>f"{x:.6f}"\<close>: six decimal places, rounded to the nearest with ties to even, and
  \<^verbatim>\<open>f"{lat:.6f},{lon:.6f}"\<close>.
\<close>

definition round_half_even :: "real \<Rightarrow> int" where
  "round_half_even x =
     (let n = \<lfloor>x\<rfloor>; r = x - of_int n
      in if r < 1 / 2 then n else if 1 / 2 < r then n + 1 else if even n then n else n + 1)"

definition fmt_6f :: "pyfloat \<Rightarrow> string" where
  "fmt_6f f =
     (case f of
        NaN \<Rightarrow> ''nan''
      | PosInf \<Rightarrow> ''inf''
      | NegInf \<Rightarrow> ''-inf''
      | Finite x \<Rightarrow>
          (let n = nat (round_half_even (\<bar>x\<bar> * 1000000));
               frac = dec_digits (n mod 1000000)
           in (if x < 0 then ''-'' else []) @ dec_digits (n div 1000000) @ ''.''
                @ replicate (6 - length frac) CHR ''0'' @ frac))"

definition basic_coord_key :: "pyfloat \<Rightarrow> pyfloat \<Rightarrow> string" where
  "basic_coord_key lat lon = fmt_6f lat @ '','' @ fmt_6f lon"

text \<open>
  The runtime of the examples: the readers above, the clock at 2024-01-01T00:00:00 UTC, and
  no time zone database (\<^verbatim>\<open>ZoneInfo(tz)\<close> raises \<^verbatim>\<open>ZoneInfoNotFoundError\<close>, a KeyError).
\<close>

definition basic_runtime :: runtime where
  "basic_runtime =
     \<lparr>float_of = basic_float, int_of = basic_int, fromisoformat = basic_fromisoformat,
      utc_now = 738885 * 86400 * 1000000, coord_key = basic_coord_key,
      zone_offset_now = (\<lambda>tz. Inl KeyError), zone_offset_at = (\<lambda>d t tz. None)\<rparr>"

section \<open>Data of the examples\<close>

text \<open>The two periods of the specification's examples, and an entry with a bad start.\<close>

definition period_A :: jval where
  "period_A = JObj [(''name'', JStr ''A''), (''start'', JStr ''2020-01-01''),
                    (''end'', JStr ''2020-06-01'')]"

definition period_B :: jval where
  "period_B = JObj [(''name'', JStr ''B''), (''start'', JStr ''2020-06-01''),
                    (''end'', JStr ''2021-01-01'')]"

definition period_malformed :: jval where
  "period_malformed = JObj [(''name'', JStr ''M''), (''start'', JStr ''soon''),
                            (''end'', JStr ''2020-06-01'')]"

text \<open>An aware UTC datetime at midnight of the given date, and a naive one.\<close>

definition utc_midnight :: "int \<Rightarrow> int \<Rightarrow> int \<Rightarrow> datetime" where
  "utc_midnight y m d = \<lparr>wall = ymd_days y m d * 86400 * 1000000, tzinfo = Some 0\<rparr>"

definition naive_midnight :: "int \<Rightarrow> int \<Rightarrow> int \<Rightarrow> datetime" where
  "naive_midnight y m d = \<lparr>wall = ymd_days y m d * 86400 * 1000000, tzinfo = None\<rparr>"

text \<open>A network on which every request fails in transport.\<close>

definition dead_network :: network where
  "dead_network req = TransportError"

text \<open>
  A network whose keyed geocoder answers with one item that has no \<^verbatim>\<open>lat\<close>, while
  Nominatim knows the place.
\<close>

definition missing_lat_network :: network where
  "missing_lat_network req =
     (case req of
        LocationIQSearch k q \<Rightarrow> Response 200 (Some (JArr [JObj [(''display_name'', JStr ''Paris'')]]))
      | NominatimSearch q \<Rightarrow>
          Response 200 (Some (JArr [JObj [(''lat'', JStr ''48.8535''), (''lon'', JStr ''2.3484''),
                                          (''display_name'', JStr ''Paris, France'')]]))
      | _ \<Rightarrow> TransportError)"

text \<open>A network whose keyed geocoder is down (status 503), while Nominatim knows the place.\<close>

definition keyed_down_network :: network where
  "keyed_down_network req =
     (case req of
        LocationIQSearch k q \<Rightarrow> Response 503 None
      | NominatimSearch q \<Rightarrow>
          Response 200 (Some (JArr [JObj [(''lat'', JStr ''48.8535''), (''lon'', JStr ''2.3484''),
                                          (''display_name'', JStr ''Paris, France'')]]))
      | _ \<Rightarrow> TransportError)"

text \<open>A geocoding cache that knows Chennai, and a timezone cache that knows Kathmandu.\<close>

definition chennai_cache :: geo_cache where
  "chennai_cache =
     [''Chennai, India'' \<mapsto> (Finite 13.0827, Finite 80.2707, JStr ''Chennai, Tamil Nadu, India'')]"

definition kathmandu_cache :: tz_cache where
  "kathmandu_cache = [''27.717200,85.324000'' \<mapsto> (JStr ''Asia/Kathmandu'', JStr ''+05:45'')]"

text \<open>A failed request: a transport error or a status outside 2xx.\<close>

fun failed :: "http_outcome \<Rightarrow> bool" where
  "failed TransportError = True"
| "failed (Response status body) = (\<not> (200 \<le> status \<and> status < 300))"

text \<open>A birth record with coordinates in the open Pacific and nothing else to go by.\<close>

definition pacific_birth :: birth where
  "pacific_birth =
     \<lparr>date = ''1990-05-17'', time = ''08:30'', timezone = JNull,
      latitude = Some (Finite 0), longitude = Some (Finite (- 140)), location = None,
      ayanamsa = 1, la = ''en''\<rparr>"

definition delhi_birth :: birth where
  "delhi_birth =
     \<lparr>date = ''1990-05-17'', time = ''08:30'', timezone = JNull,
      latitude = Some (Finite 28.6139), longitude = Some (Finite 77.2090), location = None,
      ayanamsa = 1, la = ''en''\<rparr>"

definition no_caches :: caches where
  "no_caches = \<lparr>geo_entries = Map.empty, tz_entries = Map.empty\<rparr>"

section \<open>Properties of the Offset Formatter\<close>

lemma is_digit_digit_char: "d < 10 \<Longrightarrow> is_digit (digit_char d)"
  unfolding is_digit_def digit_char_def by (rule nth_mem) simp

lemma is_digit_zero: "is_digit CHR ''0''"
  by (simp add: is_digit_def)

lemma dec_digits_two:
  assumes "10 \<le> n" "n < 100"
  shows "dec_digits n = [digit_char (n div 10), digit_char (n mod 10)]"
  using assms by (subst dec_digits.simps) (simp add: div_less_iff_less_mult)

lemma fmt_02d_two_digits:
  assumes "0 \<le> n" "n < 100"
  shows "\<exists>a b. fmt_02d n = [a, b] \<and> is_digit a \<and> is_digit b"
proof (cases "nat n < 10")
  case True
  then have "fmt_02d n = [CHR ''0'', digit_char (nat n)]"
    using assms by (simp add: fmt_02d_def numeral_2_eq_2)
  then show ?thesis
    using True by (simp add: is_digit_zero is_digit_digit_char)
next
  case False
  then have d: "dec_digits (nat n) = [digit_char (nat n div 10), digit_char (nat n mod 10)]"
    using assms by (intro dec_digits_two) auto
  have "nat n div 10 < 10"
    using assms by (simp add: div_less_iff_less_mult)
  then show ?thesis
    using assms d by (simp add: fmt_02d_def is_digit_digit_char)
qed

text \<open>
  C1 (as amended). For every integer number of seconds \<open>s\<close> of absolute value below
  360000 (one hundred hours), \<open>format_offset s\<close> matches the pattern: a sign, exactly two
  hour digits, a colon and exactly two minute digits.
\<close>

theorem format_offset_pattern_below_100h:
  assumes "\<bar>s\<bar> < 360000"
  shows "matches_offset_pattern (format_offset s)"
proof -
  have hh: "0 \<le> \<bar>s\<bar> div 3600" "\<bar>s\<bar> div 3600 < 100"
    using assms by simp_all
  have mm: "0 \<le> (\<bar>s\<bar> mod 3600) div 60" "(\<bar>s\<bar> mod 3600) div 60 < 100"
    by simp_all
  obtain a b where ab: "fmt_02d (\<bar>s\<bar> div 3600) = [a, b]" "is_digit a" "is_digit b"
    using fmt_02d_two_digits [OF hh] by blast
  obtain c d where cd: "fmt_02d ((\<bar>s\<bar> mod 3600) div 60) = [c, d]" "is_digit c" "is_digit d"
    using fmt_02d_two_digits [OF mm] by blast
  show ?thesis
    by (simp add: format_offset_def matches_offset_pattern_def Let_def ab cd)
qed

text \<open>The examples of the specification: 19800, -18000 and 0 seconds.\<close>

theorem format_offset_pattern_witness:
  "\<bar>19800::int\<bar> < 360000 \<and> matches_offset_pattern (format_offset 19800)
   \<and> format_offset 19800 = ''+05:30'' \<and> format_offset (- 18000) = ''-05:00''
   \<and> format_offset 0 = ''+00:00''"
proof -
  have "format_offset 19800 = ''+05:30''" by code_simp
  moreover have "format_offset (- 18000) = ''-05:00''" by code_simp
  moreover have "format_offset 0 = ''+00:00''" by code_simp
  ultimately show ?thesis
    using format_offset_pattern_below_100h [of 19800] by simp
qed

text \<open>
  C1 as stated fails: at one hundred hours the hour field has three digits, since
  \<^verbatim>\<open>02d\<close> is a least width.
\<close>

theorem format_offset_pattern_counterexample:
  "format_offset 360000 = ''+100:00'' \<and> \<not> matches_offset_pattern (format_offset 360000)"
  by code_simp

section \<open>Properties of the Period Selector\<close>

lemma bindE_simps [simp]:
  "bindE (Inl e) f = Inl e"
  "bindE (Inr v) f = f v"
  by (simp_all add: bindE_def)

lemma bindE_eq_Inr:
  "bindE m f = Inr y \<longleftrightarrow> (\<exists>v. m = Inr v \<and> f v = Inr y)"
  by (cases m) simp_all

lemma to_utc_aware: "to_utc d = Inr u \<Longrightarrow> tzinfo u = Some 0"
  by (auto simp: to_utc_def split: option.splits if_splits)

lemma normalize_entry_Some:
  assumes "normalize_entry rt bd p = Inr (Some (s, e, q))"
  shows "q = p \<and> tzinfo s = Some 0 \<and> tzinfo e = Some 0"
  using assms unfolding normalize_entry_def
  by (auto simp: bindE_eq_Inr split: if_splits dest: to_utc_aware)

lemma filter_periods_mem:
  "t \<in> set (filter_periods rt bd ps) \<Longrightarrow>
     snd (snd t) \<in> set ps \<and> normalize_entry rt bd (snd (snd t)) = Inr (Some t)"
proof (induction ps)
  case Nil
  then show ?case by simp
next
  case (Cons p ps)
  show ?case
  proof (cases "normalize_entry rt bd p")
    case (Inl x)
    with Cons show ?thesis by auto
  next
    case (Inr o1)
    show ?thesis
    proof (cases o1)
      case None
      with Inr Cons show ?thesis by auto
    next
      case (Some t')
      obtain s e q where t': "t' = (s, e, q)" by (cases t') auto
      with Inr Some have "q = p" using normalize_entry_Some by blast
      with Inr Some t' Cons show ?thesis by auto
    qed
  qed
qed

lemma filter_periods_aware:
  assumes "t \<in> set (filter_periods rt bd ps)"
  shows "tzinfo (fst t) = Some 0 \<and> tzinfo (fst (snd t)) = Some 0"
proof -
  obtain s e q where t: "t = (s, e, q)" by (cases t) auto
  from filter_periods_mem [OF assms] have "normalize_entry rt bd q = Inr (Some (s, e, q))"
    by (simp add: t)
  then show ?thesis using normalize_entry_Some t by fastforce
qed

lemma dt_le_aware:
  "tzinfo a \<noteq> None \<Longrightarrow> tzinfo b \<noteq> None \<Longrightarrow> dt_le a b = Inr (instant a \<le> instant b)"
  by (simp add: dt_le_def)

lemma dt_le_mixed:
  "tzinfo a \<noteq> None \<Longrightarrow> tzinfo b = None \<Longrightarrow> dt_le a b = Inl TypeError"
  by (simp add: dt_le_def)

lemma first_containing_aware:
  assumes "tzinfo now \<noteq> None"
    and "\<forall>t \<in> set cands. tzinfo (fst t) \<noteq> None \<and> tzinfo (fst (snd t)) \<noteq> None"
  shows "first_containing now cands = Inr (map_option (\<lambda>t. snd (snd t)) (find (covers now) cands))"
  using assms
proof (induction cands)
  case Nil
  then show ?case by simp
next
  case (Cons t cands)
  obtain s e p where t: "t = (s, e, p)" by (cases t) auto
  with Cons.prems have "dt_le s now = Inr (instant s \<le> instant now)"
    "dt_le now e = Inr (instant now \<le> instant e)"
    by (simp_all add: dt_le_aware)
  with Cons t show ?case by (simp add: covers_def)
qed

lemma first_containing_naive:
  assumes "tzinfo now = None"
    and "\<forall>t \<in> set cands. tzinfo (fst t) \<noteq> None \<and> tzinfo (fst (snd t)) \<noteq> None"
  shows "first_containing now cands = (if cands = [] then Inr None else Inl TypeError)"
proof (cases cands)
  case Nil
  then show ?thesis by simp
next
  case (Cons t rest)
  obtain s e p where t: "t = (s, e, p)" by (cases t) auto
  with Cons assms have "dt_le s now = Inl TypeError" by (simp add: dt_le_mixed)
  with Cons t show ?thesis by simp
qed



lemma sort_key_first_min:
  "xs \<noteq> [] \<Longrightarrow>
     \<exists>pre x post ys. xs = pre @ x # post \<and> (\<forall>t \<in> set pre. f x < f t) \<and>
        (\<forall>t \<in> set post. f x \<le> f t) \<and> sort_key f xs = x # ys"
proof (induction xs)
  case Nil
  then show ?case by simp
next
  case (Cons a rest)
  show ?case
  proof (cases "rest = []")
    case True
    then show ?thesis
      by (intro exI [of _ "[]"] exI [of _ a]) simp
  next
    case False
    with Cons.IH obtain pre x post ys where
      h: "rest = pre @ x # post" "\<forall>t \<in> set pre. f x < f t" "\<forall>t \<in> set post. f x \<le> f t"
         "sort_key f rest = x # ys"
      by blast
    show ?thesis
    proof (cases "f a \<le> f x")
      case True
      have "\<forall>t \<in> set rest. f a \<le> f t"
        using h True by (auto intro: order_trans less_imp_le)
      moreover have "sort_key f (a # rest) = a # x # ys"
        using h True by simp
      ultimately show ?thesis
        by (intro exI [of _ "[]"] exI [of _ a] exI [of _ rest] exI [of _ "x # ys"]) simp
    next
      case False
      then have "sort_key f (a # rest) = x # insort_key f a ys"
        using h by simp
      moreover have "\<forall>t \<in> set (a # pre). f x < f t"
        using h False by auto
      ultimately show ?thesis
        using h
        by (intro exI [of _ "a # pre"] exI [of _ x] exI [of _ post]
            exI [of _ "insort_key f a ys"]) simp
    qed
  qed
qed

lemma current_period_list:
  "current_period rt (JArr ps) birth_dt now_arg =
     bindE (first_containing (reference_now rt now_arg) (filter_periods rt birth_dt ps)) (\<lambda>hit.
       case hit of
         Some p \<Rightarrow> Inr p
       | None \<Rightarrow>
           (case sort_key (\<lambda>t. instant (fst t)) (filter_periods rt birth_dt ps) of
              t # _ \<Rightarrow> Inr (snd (snd t))
            | [] \<Rightarrow> (case ps of p0 # _ \<Rightarrow> Inr p0 | [] \<Rightarrow> Inr JNull)))"
  by (simp add: current_period_def Let_def)

lemma filter_periods_all_aware:
  "\<forall>t \<in> set (filter_periods rt bd ps). tzinfo (fst t) \<noteq> None \<and> tzinfo (fst (snd t)) \<noteq> None"
  using filter_periods_aware by fastforce


lemma instant_utc [simp]: "instant \<lparr>wall = w, tzinfo = Some 0\<rparr> = w"
  by (simp add: instant_def)








text \<open>
  C10. For every input the selector returns \<^verbatim>\<open>None\<close> or an element of the input list.
  The one other outcome is the TypeError of comparing a naive \<^verbatim>\<open>now\<close> argument with the
  normalized bounds; nothing is returned then.
\<close>

theorem current_period_result_from_input:
  "(\<exists>r. current_period rt periods birth_dt now_arg = Inr r \<and>
        (r = JNull \<or> (\<exists>ps. periods = JArr ps \<and> r \<in> set ps)))
   \<or> (current_period rt periods birth_dt now_arg = Inl TypeError \<and>
       tzinfo (reference_now rt now_arg) = None)"
proof (cases periods)
  case (JArr ps)
  let ?now = "reference_now rt now_arg"
  let ?cands = "filter_periods rt birth_dt ps"
  let ?f = "\<lambda>t. instant (fst t)"
  have fallback: "\<exists>r. (case sort_key ?f ?cands of
              t # _ \<Rightarrow> Inr (snd (snd t))
            | [] \<Rightarrow> (case ps of p0 # _ \<Rightarrow> Inr p0 | [] \<Rightarrow> Inr JNull)) = (Inr r :: exc + jval)
          \<and> (r = JNull \<or> r \<in> set ps)"
  proof (cases "sort_key ?f ?cands")
    case Nil
    then show ?thesis by (cases ps) auto
  next
    case (Cons t ts)
    then have "t \<in> set (sort_key ?f ?cands)" by simp
    then have "t \<in> set ?cands" by simp
    then have "snd (snd t) \<in> set ps" using filter_periods_mem by blast
    with Cons show ?thesis by simp
  qed
  show ?thesis
  proof (cases "tzinfo ?now = None")
    case True
    show ?thesis
    proof (cases "?cands = []")
      case e: True
      then show ?thesis
        using JArr fallback by (simp add: current_period_list)
    next
      case False
      then have "first_containing ?now ?cands = Inl TypeError"
        using first_containing_naive [OF True filter_periods_all_aware] by simp
      then show ?thesis
        using JArr True by (simp add: current_period_list)
    qed
  next
    case False
    have fc: "first_containing ?now ?cands
                = Inr (map_option (\<lambda>t. snd (snd t)) (find (covers ?now) ?cands))"
      using first_containing_aware [OF False filter_periods_all_aware] .
    show ?thesis
    proof (cases "find (covers ?now) ?cands")
      case None
      then show ?thesis
        using JArr fc fallback by (simp add: current_period_list)
    next
      case (Some t)
      then have "t \<in> set ?cands"
        by (auto simp: find_Some_iff)
      then have "snd (snd t) \<in> set ps" using filter_periods_mem by blast
      then show ?thesis
        using JArr fc Some by (simp add: current_period_list)
    qed
  qed
qed (simp_all add: current_period_def)

lemma normalize_entry_bad_field:
  assumes "isl (period_field rt p ''start'') \<or> isl (period_field rt p ''end'')"
  shows "isl (normalize_entry rt bd p)"
proof (cases "period_field rt p ''start''")
  case (Inl x)
  then show ?thesis by (simp add: normalize_entry_def)
next
  case (Inr s0)
  with assms obtain y where "period_field rt p ''end'' = Inl y"
    by (cases "period_field rt p ''end''") auto
  with Inr show ?thesis by (simp add: normalize_entry_def)
qed

text \<open>
  C2 (as amended). For an input list of one entry whose start or end cannot be read, the
  selector skips the entry in the loop, raises nothing, and returns that entry itself, as
  the first element of the untouched input.
\<close>

theorem current_period_single_malformed:
  assumes "isl (period_field rt p ''start'') \<or> isl (period_field rt p ''end'')"
  shows "current_period rt (JArr [p]) birth_dt now_arg = Inr p"
proof -
  obtain x where "normalize_entry rt birth_dt p = Inl x"
    using normalize_entry_bad_field [OF assms, of birth_dt]
    by (cases "normalize_entry rt birth_dt p") auto
  then have "filter_periods rt birth_dt [p] = []" by simp
  then show ?thesis
    by (simp add: current_period_list)
qed

lemma normalize_entry_before_birth:
  assumes "period_field rt p ''end'' = Inr e0" "to_utc e0 = Inr e" "to_utc bd0 = Inr bd"
    and "instant e < instant bd"
  shows "normalize_entry rt (Some bd0) p \<noteq> Inr (Some t)"
proof (cases "period_field rt p ''start''")
  case (Inl x)
  then show ?thesis by (simp add: normalize_entry_def)
next
  case (Inr s0)
  show ?thesis
  proof (cases "to_utc s0")
    case (Inl x)
    with Inr assms show ?thesis by (simp add: normalize_entry_def)
  next
    case s: (Inr s)
    have "dt_le bd e = Inr False"
      using assms to_utc_aware [of e0 e] to_utc_aware [of bd0 bd] by (simp add: dt_le_def)
    with Inr s assms show ?thesis by (simp add: normalize_entry_def)
  qed
qed

text \<open>
  C5 (as amended). When a birth instant is supplied, a period whose normalized end is
  strictly before the normalized birth instant is never among the candidates; as long as
  one candidate survives, the selector does not return it, wherever the reference instant
  lies.
\<close>

theorem current_period_excludes_pre_birth:
  assumes "period_field rt p ''end'' = Inr e0" "to_utc e0 = Inr e" "to_utc bd0 = Inr bd"
    and "instant e < instant bd"
  shows "p \<notin> (\<lambda>t. snd (snd t)) ` set (filter_periods rt (Some bd0) ps) \<and>
         (filter_periods rt (Some bd0) ps \<noteq> [] \<longrightarrow>
            current_period rt (JArr ps) (Some bd0) now_arg \<noteq> Inr p)"
proof -
  let ?cands = "filter_periods rt (Some bd0) ps"
  have notin: "p \<notin> (\<lambda>t. snd (snd t)) ` set ?cands"
  proof
    assume "p \<in> (\<lambda>t. snd (snd t)) ` set ?cands"
    then obtain t where "t \<in> set ?cands" "snd (snd t) = p" by auto
    then have "normalize_entry rt (Some bd0) p = Inr (Some t)"
      using filter_periods_mem by blast
    then show False using normalize_entry_before_birth [OF assms] by blast
  qed
  have "current_period rt (JArr ps) (Some bd0) now_arg \<noteq> Inr p" if ne: "?cands \<noteq> []"
  proof
    assume eq: "current_period rt (JArr ps) (Some bd0) now_arg = Inr p"
    let ?now = "reference_now rt now_arg"
    let ?f = "\<lambda>t. instant (fst t)"
    have aware: "tzinfo ?now \<noteq> None"
    proof
      assume "tzinfo ?now = None"
      then have "first_containing ?now ?cands = Inl TypeError"
        using first_containing_naive [OF _ filter_periods_all_aware] ne by simp
      with eq show False by (simp add: current_period_list)
    qed
    have fc: "first_containing ?now ?cands
                = Inr (map_option (\<lambda>t. snd (snd t)) (find (covers ?now) ?cands))"
      using first_containing_aware [OF aware filter_periods_all_aware] .
    show False
    proof (cases "find (covers ?now) ?cands")
      case (Some t)
      then have "t \<in> set ?cands" by (auto simp: find_Some_iff)
      moreover have "snd (snd t) = p" using eq fc Some by (simp add: current_period_list)
      ultimately show False using notin by blast
    next
      case None
      obtain pre x post ys where h: "?cands = pre @ x # post" "sort_key ?f ?cands = x # ys"
        using sort_key_first_min [OF ne, of ?f] by blast
      then have "x \<in> set ?cands" by simp
      moreover have "snd (snd x) = p" using eq fc None h by (simp add: current_period_list)
      ultimately show False using notin by blast
    qed
  qed
  with notin show ?thesis by blast
qed

subsection \<open>The examples, evaluated\<close>

lemmas date_defs = parse_date_def number_def is_digit_def ymd_days_def days_before_year_def
  days_before_month_def days_in_month_def is_leap_def

lemma ymd_days_values:
  "ymd_days 2020 1 1 = 737424" "ymd_days 2020 3 1 = 737484" "ymd_days 2020 6 1 = 737576"
  "ymd_days 2020 7 1 = 737606" "ymd_days 2020 8 1 = 737637" "ymd_days 2021 1 1 = 737790"
  "ymd_days 2025 1 1 = 739251"
  by (simp_all add: date_defs)

lemma parse_date_values:
  "parse_date ''2020-01-01'' = Some 737424" "parse_date ''2020-06-01'' = Some 737576"
  "parse_date ''2021-01-01'' = Some 737790"
  by (simp_all add: date_defs)

lemma basic_fromisoformat_values:
  "basic_fromisoformat ''2020-01-01'' = Inr (naive_midnight 2020 1 1)"
  "basic_fromisoformat ''2020-06-01'' = Inr (naive_midnight 2020 6 1)"
  "basic_fromisoformat ''2021-01-01'' = Inr (naive_midnight 2021 1 1)"
  by (simp_all add: basic_fromisoformat_def parse_date_values naive_midnight_def ymd_days_values)

lemma basic_fromisoformat_soon: "basic_fromisoformat ''soon'' = Inl ValueError"
  by (simp add: basic_fromisoformat_def parse_date_def)

lemma to_utc_naive_midnight: "to_utc (naive_midnight y m d) = Inr (utc_midnight y m d)"
  by (simp add: to_utc_def naive_midnight_def utc_midnight_def)

lemma tzinfo_utc_midnight: "tzinfo (utc_midnight y m d) = Some 0"
  by (simp add: utc_midnight_def)

lemma instant_utc_midnight: "instant (utc_midnight y m d) = ymd_days y m d * 86400 * 1000000"
  by (simp add: utc_midnight_def instant_def)

lemma period_fields:
  "period_field basic_runtime period_A ''start'' = Inr (naive_midnight 2020 1 1)"
  "period_field basic_runtime period_A ''end'' = Inr (naive_midnight 2020 6 1)"
  "period_field basic_runtime period_B ''start'' = Inr (naive_midnight 2020 6 1)"
  "period_field basic_runtime period_B ''end'' = Inr (naive_midnight 2021 1 1)"
  "period_field basic_runtime period_malformed ''start'' = Inl ValueError"
  by (simp_all add: period_field_def py_get_def period_A_def period_B_def period_malformed_def
      basic_runtime_def basic_fromisoformat_values basic_fromisoformat_soon)

lemma dt_le_utc_midnight:
  "dt_le (utc_midnight y m d) (utc_midnight y' m' d') = Inr (ymd_days y m d \<le> ymd_days y' m' d')"
  by (simp add: dt_le_def tzinfo_utc_midnight instant_utc_midnight)


lemma normalize_A_B_birth_july:
  "normalize_entry basic_runtime (Some (naive_midnight 2020 7 1)) period_A = Inr None"
  "normalize_entry basic_runtime (Some (naive_midnight 2020 7 1)) period_B
     = Inr (Some (utc_midnight 2020 6 1, utc_midnight 2021 1 1, period_B))"
  by (simp_all add: normalize_entry_def period_fields to_utc_naive_midnight dt_le_utc_midnight
      ymd_days_values)

lemma normalize_malformed: "normalize_entry basic_runtime bd period_malformed = Inl ValueError"
  by (simp add: normalize_entry_def period_fields)


lemma covers_utc_midnight:
  "covers (utc_midnight y m d) (utc_midnight y1 m1 d1, utc_midnight y2 m2 d2, p)
     \<longleftrightarrow> ymd_days y1 m1 d1 \<le> ymd_days y m d \<and> ymd_days y m d \<le> ymd_days y2 m2 d2"
  by (simp add: covers_def instant_utc_midnight)








text \<open>C10 at the input of the first example.\<close>

theorem current_period_result_from_input_witness:
  "(\<exists>r. current_period basic_runtime (JArr [period_A, period_B]) None
           (Some (utc_midnight 2020 8 1)) = Inr r \<and>
        (r = JNull \<or> (\<exists>ps. JArr [period_A, period_B] = JArr ps \<and> r \<in> set ps)))
   \<or> (current_period basic_runtime (JArr [period_A, period_B]) None
         (Some (utc_midnight 2020 8 1)) = Inl TypeError \<and>
       tzinfo (reference_now basic_runtime (Some (utc_midnight 2020 8 1))) = None)"
  by (rule current_period_result_from_input)

text \<open>C2 (as amended) at the entry with the start \<^verbatim>\<open>"soon"\<close>.\<close>

theorem current_period_single_malformed_witness:
  "isl (period_field basic_runtime period_malformed ''start'') \<and>
   current_period basic_runtime (JArr [period_malformed]) None (Some (utc_midnight 2020 8 1))
     = Inr period_malformed"
proof -
  have "isl (period_field basic_runtime period_malformed ''start'')"
    by (simp add: period_fields)
  then show ?thesis
    using current_period_single_malformed
      [of basic_runtime period_malformed None "Some (utc_midnight 2020 8 1)"]
    by simp
qed

text \<open>
  C2 as stated fails: the one malformed entry is skipped by the loop, and then returned
  as the first element of the input instead of \<^verbatim>\<open>None\<close>.
\<close>

theorem current_period_single_malformed_counterexample:
  "period_field basic_runtime period_malformed ''start'' = Inl ValueError \<and>
   current_period basic_runtime (JArr [period_malformed]) None None = Inr period_malformed \<and>
   period_malformed \<noteq> JNull"
  by (simp add: period_fields current_period_list normalize_malformed)
    (simp add: period_malformed_def)

text \<open>
  C5 (as amended) at the example of the specification: birth on 2020-07-01, the
  reference instant inside A.
\<close>

theorem current_period_excludes_pre_birth_witness:
  "instant (utc_midnight 2020 6 1) < instant (utc_midnight 2020 7 1) \<and>
   filter_periods basic_runtime (Some (naive_midnight 2020 7 1)) [period_A, period_B] \<noteq> [] \<and>
   current_period basic_runtime (JArr [period_A, period_B]) (Some (naive_midnight 2020 7 1))
     (Some (utc_midnight 2020 3 1)) \<noteq> Inr period_A"
proof -
  have lt: "instant (utc_midnight 2020 6 1) < instant (utc_midnight 2020 7 1)"
    by (simp add: instant_utc_midnight ymd_days_values)
  have ne: "filter_periods basic_runtime (Some (naive_midnight 2020 7 1)) [period_A, period_B] \<noteq> []"
    by (simp add: normalize_A_B_birth_july)
  show ?thesis
    using lt ne
      current_period_excludes_pre_birth
        [OF period_fields(2) to_utc_naive_midnight to_utc_naive_midnight lt,
         of "[period_A, period_B]" "Some (utc_midnight 2020 3 1)"]
    by blast
qed

text \<open>
  C5 as stated fails: when A is the only period, it ends before birth, is discarded, and
  is returned all the same, as the first element of the input.
\<close>

theorem current_period_excludes_pre_birth_counterexample:
  "period_field basic_runtime period_A ''end'' = Inr (naive_midnight 2020 6 1) \<and>
   instant (utc_midnight 2020 6 1) < instant (utc_midnight 2020 7 1) \<and>
   current_period basic_runtime (JArr [period_A]) (Some (naive_midnight 2020 7 1))
     (Some (utc_midnight 2020 3 1)) = Inr period_A"
  by (simp add: period_fields instant_utc_midnight ymd_days_values current_period_list
      normalize_A_B_birth_july)

section \<open>Properties of the Geocoding Resolver\<close>

lemma catch_http_simps [simp]:
  "catch_http (Inl HTTPError) = Inr None"
  "catch_http (Inr v) = Inr v"
  "e \<noteq> HTTPError \<Longrightarrow> catch_http (Inl e) = Inl e"
  by (cases e; simp add: catch_http_def)+

lemma chain_simps [simp]:
  "chain cache (Inl e) rest = (Inl e, cache)"
  "chain cache (Inr None) rest = rest"
  "chain cache (Inr (Some (out, cache'))) rest = (Inr (Some out), cache')"
  by (simp_all add: chain_def)

lemma fetch_json_failed: "failed r \<Longrightarrow> fetch_json r = Inl HTTPError"
  by (cases r) (auto simp: fetch_json_def)

lemma search_block_http_error:
  "fetch_json r = Inl HTTPError \<Longrightarrow> search_block rt r cache loc = Inr None"
  by (simp add: search_block_def)

text \<open>
  C8. With no keyed provider configured and the query in the geocoding cache, the
  resolver returns the cached entry and leaves the cache as it is, whatever the network
  would answer: the right-hand side does not mention the network.
\<close>

theorem geocode_location_cache_hit:
  assumes "\<not> key_set locationiq_key"
    and "cache loc = Some (lat, lon, name)"
  shows "geocode_location rt locationiq_key net cache loc
           = (Inr (Some \<lparr>geo_latitude = lat, geo_longitude = lon, geo_display_name = name,
                          geo_timezone = None\<rparr>), cache)"
  using assms by (auto simp: geocode_location_def key_set_def split: option.splits)

text \<open>
  C8 on a cache that knows Chennai, with a network that would answer every Nominatim
  search with Paris.
\<close>

theorem geocode_location_cache_hit_witness:
  "\<not> key_set None \<and>
   chennai_cache ''Chennai, India''
     = Some (Finite 13.0827, Finite 80.2707, JStr ''Chennai, Tamil Nadu, India'') \<and>
   geocode_location basic_runtime None keyed_down_network chennai_cache ''Chennai, India''
     = (Inr (Some \<lparr>geo_latitude = Finite 13.0827, geo_longitude = Finite 80.2707,
                    geo_display_name = JStr ''Chennai, Tamil Nadu, India'',
                    geo_timezone = None\<rparr>), chennai_cache)"
proof -
  have k: "\<not> key_set None" by (simp add: key_set_def)
  have c: "chennai_cache ''Chennai, India''
     = Some (Finite 13.0827, Finite 80.2707, JStr ''Chennai, Tamil Nadu, India'')"
    by (simp add: chennai_cache_def)
  show ?thesis
    using k c
      geocode_location_cache_hit
        [where locationiq_key = None and cache = chennai_cache and loc = "''Chennai, India''"
           and rt = basic_runtime and net = keyed_down_network, OF k c]
    by simp
qed

text \<open>
  C3 (as amended). When the request to the keyed provider fails with an
  \<^verbatim>\<open>httpx.HTTPError\<close> (a transport error or a status outside 2xx), the resolver goes on
  as it does without a key: the cache, then Nominatim, then Open-Meteo. When the provider
  answers and reading the first item raises another exception (a missing \<^verbatim>\<open>lat\<close> or
  \<^verbatim>\<open>lon\<close>, a value that \<^verbatim>\<open>float\<close> rejects), that exception leaves the resolver and the
  cache stays as it was.
\<close>

theorem geocode_location_keyed_http_failure:
  assumes "key \<noteq> []"
  shows "(fetch_json (net (LocationIQSearch key loc)) = Inl HTTPError \<longrightarrow>
            geocode_location rt (Some key) net cache loc
              = geocode_location rt None net cache loc) \<and>
         (\<forall>arr item e.
            fetch_json (net (LocationIQSearch key loc)) = Inr arr \<and> truthy arr \<and>
            py_index0 arr = Inr item \<and>
            geo_from_item rt item ''lat'' ''lon'' ''display_name'' = Inl e \<and> e \<noteq> HTTPError \<longrightarrow>
            geocode_location rt (Some key) net cache loc = (Inl e, cache))"
  using assms by (auto simp: geocode_location_def search_block_http_error search_block_def)

lemma decimal_values:
  "decimal ''48.8535'' = Some (488535 / 10000)" "decimal ''2.3484'' = Some (23484 / 10000)"
  by (simp_all add: decimal_def unsigned_decimal_def number_def is_digit_def)

lemma basic_float_values:
  "basic_float (JStr ''48.8535'') = Inr (Finite 48.8535)"
  "basic_float (JStr ''2.3484'') = Inr (Finite 2.3484)"
  by (simp_all add: decimal_values of_rat_divide)

lemma paris_item:
  "geo_from_item basic_runtime
     (JObj [(''lat'', JStr ''48.8535''), (''lon'', JStr ''2.3484''),
            (''display_name'', JStr ''Paris, France'')]) ''lat'' ''lon'' ''display_name''
   = Inr \<lparr>geo_latitude = Finite 48.8535, geo_longitude = Finite 2.3484,
          geo_display_name = JStr ''Paris, France'', geo_timezone = None\<rparr>"
  by (simp add: geo_from_item_def basic_runtime_def decimal_values of_rat_divide py_get_def)

lemma nominatim_paris:
  "search_block basic_runtime
     (Response 200 (Some (JArr [JObj [(''lat'', JStr ''48.8535''), (''lon'', JStr ''2.3484''),
                                      (''display_name'', JStr ''Paris, France'')]])))
     Map.empty ''Paris''
   = Inr (Some (\<lparr>geo_latitude = Finite 48.8535, geo_longitude = Finite 2.3484,
                  geo_display_name = JStr ''Paris, France'', geo_timezone = None\<rparr>,
               [''Paris'' \<mapsto> (Finite 48.8535, Finite 2.3484, JStr ''Paris, France'')]))"
  by (simp add: search_block_def fetch_json_def paris_item geo_store_def py_or_def)

text \<open>
  C3 (as amended) on a network whose keyed provider answers 503 and whose Nominatim
  knows Paris.
\<close>

theorem geocode_location_keyed_http_failure_witness:
  "''k'' \<noteq> [] \<and>
   fetch_json (keyed_down_network (LocationIQSearch ''k'' ''Paris'')) = Inl HTTPError \<and>
   geocode_location basic_runtime (Some ''k'') keyed_down_network Map.empty ''Paris''
     = (Inr (Some \<lparr>geo_latitude = Finite 48.8535, geo_longitude = Finite 2.3484,
                    geo_display_name = JStr ''Paris, France'', geo_timezone = None\<rparr>),
        [''Paris'' \<mapsto> (Finite 48.8535, Finite 2.3484, JStr ''Paris, France'')])"
proof -
  have k: "''k'' \<noteq> []" by simp
  have f: "fetch_json (keyed_down_network (LocationIQSearch ''k'' ''Paris'')) = Inl HTTPError"
    by (simp add: keyed_down_network_def fetch_json_def)
  have "geocode_location basic_runtime None keyed_down_network Map.empty ''Paris''
     = (Inr (Some \<lparr>geo_latitude = Finite 48.8535, geo_longitude = Finite 2.3484,
                    geo_display_name = JStr ''Paris, France'', geo_timezone = None\<rparr>),
        [''Paris'' \<mapsto> (Finite 48.8535, Finite 2.3484, JStr ''Paris, France'')])"
    by (simp add: geocode_location_def keyed_down_network_def nominatim_paris)
  then show ?thesis
    using k f
      geocode_location_keyed_http_failure
        [where key = "''k''" and net = keyed_down_network and loc = "''Paris''"
           and rt = basic_runtime and cache = Map.empty, OF k]
    by simp
qed

text \<open>
  C3 as stated fails: the keyed provider answers with an item without \<^verbatim>\<open>lat\<close>, the
  KeyError of \<^verbatim>\<open>item["lat"]\<close> is no \<^verbatim>\<open>httpx.HTTPError\<close>, and it leaves the resolver
  although Nominatim would have known the place.
\<close>

theorem geocode_location_parse_failure_counterexample:
  "fetch_json (missing_lat_network (LocationIQSearch ''k'' ''Paris''))
     = Inr (JArr [JObj [(''display_name'', JStr ''Paris'')]]) \<and>
   geocode_location basic_runtime (Some ''k'') missing_lat_network Map.empty ''Paris''
     = (Inl KeyError, Map.empty)"
  by (simp add: geocode_location_def missing_lat_network_def fetch_json_def search_block_def
      geo_from_item_def)

section \<open>Properties of the Timezone Resolver\<close>

lemma tz_blocks_failed:
  assumes "failed r"
  shows "locationiq_tz_block rt r cache key = Inr None"
    and "timeapi_block rt r cache key = Inr None"
    and "open_meteo_tz_block rt r cache key = Inr None"
    and "reverse_geocode_block rt r cache key = Inr None"
proof -
  show "locationiq_tz_block rt r cache key = Inr None"
    using assms by (simp add: locationiq_tz_block_def fetch_json_failed)
  show "timeapi_block rt r cache key = Inr None"
    using assms by (simp add: timeapi_block_def fetch_json_failed)
  show "open_meteo_tz_block rt r cache key = Inr None"
    using assms by (simp add: open_meteo_tz_block_def fetch_json_failed)
  show "reverse_geocode_block rt r cache key = Inr None"
    using assms by (cases r) (auto simp: reverse_geocode_block_def)
qed

lemma timezone_for_coords_all_failed:
  assumes "\<forall>req. failed (net req)"
  shows "timezone_for_coords rt k net cache lat lon =
     (case cache (coord_key rt lat lon) of
        Some (tzid, off) \<Rightarrow> (Inr (Some \<lparr>timeZone = tzid, offset = off\<rparr>), cache)
      | None \<Rightarrow> chain cache (bounding_box_block cache (coord_key rt lat lon) lat lon)
                 (Inr None, cache))"
  using assms
  by (simp add: timezone_for_coords_def Let_def tz_blocks_failed split: option.splits)

text \<open>
  C4 (as amended). For coordinates in the box from 6.0 to 37.5 degrees of latitude and
  68.0 to 98.0 degrees of longitude, when every request fails: if the coordinate key is
  not in the timezone cache, the resolver returns Asia/Kolkata with +05:30 and stores
  it; if the key is cached, it returns the cached entry. It never returns \<^verbatim>\<open>None\<close>.
\<close>

theorem timezone_for_coords_india_box:
  assumes "in_india_box lat lon"
    and "\<forall>req. failed (net req)"
  shows "(cache (coord_key rt lat lon) = None \<longrightarrow>
            timezone_for_coords rt k net cache lat lon
              = (Inr (Some \<lparr>timeZone = JStr ''Asia/Kolkata'', offset = JStr ''+05:30''\<rparr>),
                 cache(coord_key rt lat lon \<mapsto> (JStr ''Asia/Kolkata'', JStr ''+05:30'')))) \<and>
         (\<forall>tzid off. cache (coord_key rt lat lon) = Some (tzid, off) \<longrightarrow>
            timezone_for_coords rt k net cache lat lon
              = (Inr (Some \<lparr>timeZone = tzid, offset = off\<rparr>), cache))"
  using assms(1)
  by (simp add: timezone_for_coords_all_failed [OF assms(2)] bounding_box_block_def
      tz_return_def)

lemma failed_dead_network: "\<forall>req. failed (dead_network req)"
  by (simp add: dead_network_def)

lemma delhi_in_box: "in_india_box (Finite 28.6139) (Finite 77.2090)"
  by (simp add: in_india_box_def)

text \<open>
  C4 (as amended) at New Delhi (28.6139, 77.2090), from an empty cache and with every
  request failing in transport.
\<close>

theorem timezone_for_coords_india_box_witness:
  "in_india_box (Finite 28.6139) (Finite 77.2090) \<and> (\<forall>req. failed (dead_network req)) \<and>
   fst (timezone_for_coords basic_runtime None dead_network Map.empty
          (Finite 28.6139) (Finite 77.2090))
     = Inr (Some \<lparr>timeZone = JStr ''Asia/Kolkata'', offset = JStr ''+05:30''\<rparr>)"
  using delhi_in_box failed_dead_network
    timezone_for_coords_india_box
      [where lat = "Finite 28.6139" and lon = "Finite 77.2090" and net = dead_network
         and cache = Map.empty and rt = basic_runtime and k = None,
       OF delhi_in_box failed_dead_network]
  by simp

lemma round_half_even_values:
  "round_half_even (\<bar>27.7172\<bar> * 1000000) = 27717200"
  "round_half_even (\<bar>85.3240\<bar> * 1000000) = 85324000"
  by (simp_all add: round_half_even_def Let_def)

lemma dec_digits_values:
  "dec_digits 27 = ''27''" "dec_digits 85 = ''85''"
  "dec_digits 717200 = ''717200''" "dec_digits 324000 = ''324000''"
  by (simp_all add: digit_char_def)

lemma fmt_6f_values:
  "fmt_6f (Finite 27.7172) = ''27.717200''" "fmt_6f (Finite 85.3240) = ''85.324000''"
  unfolding fmt_6f_def pyfloat.case Let_def round_half_even_values
  by (simp_all add: dec_digits_values del: dec_digits.simps)

lemma kathmandu_key:
  "coord_key basic_runtime (Finite 27.7172) (Finite 85.3240) = ''27.717200,85.324000''"
proof -
  have "coord_key basic_runtime = basic_coord_key"
    by (simp add: basic_runtime_def)
  then show ?thesis
    by (simp only: basic_coord_key_def fmt_6f_values) simp
qed

text \<open>
  C4 as stated fails: Kathmandu (27.7172, 85.3240) lies in the box; once a provider has
  answered for it, the cache holds Asia/Kathmandu with +05:45, and that is what the
  resolver returns when every provider fails later.
\<close>

theorem timezone_for_coords_cached_counterexample:
  "in_india_box (Finite 27.7172) (Finite 85.3240) \<and>
   timezone_for_coords basic_runtime None dead_network kathmandu_cache
       (Finite 27.7172) (Finite 85.3240)
     = (Inr (Some \<lparr>timeZone = JStr ''Asia/Kathmandu'', offset = JStr ''+05:45''\<rparr>),
        kathmandu_cache)"
proof -
  have "in_india_box (Finite 27.7172) (Finite 85.3240)"
    by (simp add: in_india_box_def)
  moreover have "kathmandu_cache (coord_key basic_runtime (Finite 27.7172) (Finite 85.3240))
      = Some (JStr ''Asia/Kathmandu'', JStr ''+05:45'')"
    unfolding kathmandu_key by (simp add: kathmandu_cache_def)
  ultimately show ?thesis
    by (simp add: timezone_for_coords_def Let_def)
qed

section \<open>Properties of the resolution in compute\<close>

lemma offset_check_Inr: "offset_check b = Inr b' \<Longrightarrow> b' = b \<and> truthy (timezone b)"
  by (auto simp: offset_check_def split: if_splits)

lemma resolve_birth_Inr:
  assumes "resolve_birth rt k net cs b = (Inr b', cs')"
  shows "truthy (timezone b')"
proof -
  obtain r1 cs1 where g: "geocode_step rt k net cs b = (r1, cs1)"
    by (cases "geocode_step rt k net cs b") auto
  show ?thesis
  proof (cases r1)
    case (Inl x)
    with g assms show ?thesis
      by (cases x) (simp_all add: resolve_birth_def)
  next
    case (Inr b1)
    obtain r2 cs2 where t: "timezone_step rt k net cs1 b1 = (r2, cs2)"
      by (cases "timezone_step rt k net cs1 b1") auto
    show ?thesis
    proof (cases r2)
      case (Inl x)
      with g Inr t assms show ?thesis
        by (cases x) (simp_all add: resolve_birth_def)
    next
      case b2: (Inr b2)
      show ?thesis
      proof (cases "offset_check b2")
        case (Inl x)
        with g Inr t b2 assms show ?thesis
          by (cases x) (simp_all add: resolve_birth_def)
      next
        case ok: (Inr b3)
        with g Inr t b2 assms have "b' = b3"
          by (simp add: resolve_birth_def)
        with ok show ?thesis
          using offset_check_Inr by blast
      qed
    qed
  qed
qed

text \<open>
  C9. When the geocoding step and the timezone step raise nothing and leave the offset
  of the birth record missing, \<^verbatim>\<open>compute\<close> fails with the HTTP 400 exception
  \<^verbatim>\<open>timezone_unresolved\<close>; and whenever \<^verbatim>\<open>compute\<close> reaches the chart, it is with a
  birth record whose offset is present.
\<close>

theorem compute_unresolved_offset_fails:
  "(geocode_step rt k net cs b = (Inr b1, cs1) \<longrightarrow>
    timezone_step rt k net cs1 b1 = (Inr b2, cs2) \<longrightarrow>
    \<not> truthy (timezone b2) \<longrightarrow>
      compute rt k net chart cs b = (Inl (HTTPException 400 TimezoneUnresolved), cs2)) \<and>
   (compute rt k net chart cs b = (Inr r, cs') \<longrightarrow>
      (\<exists>b'. r = chart b' \<and> truthy (timezone b')))"
proof (intro conjI impI)
  assume "geocode_step rt k net cs b = (Inr b1, cs1)"
    and "timezone_step rt k net cs1 b1 = (Inr b2, cs2)"
    and "\<not> truthy (timezone b2)"
  then show "compute rt k net chart cs b = (Inl (HTTPException 400 TimezoneUnresolved), cs2)"
    by (simp add: compute_def resolve_birth_def offset_check_def)
next
  assume c: "compute rt k net chart cs b = (Inr r, cs')"
  obtain res cs0 where rb: "resolve_birth rt k net cs b = (res, cs0)"
    by (cases "resolve_birth rt k net cs b") auto
  with c obtain b' where "res = Inr b'" "r = chart b'" "cs0 = cs'"
    by (cases res) (auto simp: compute_def)
  with rb show "\<exists>b'. r = chart b' \<and> truthy (timezone b')"
    using resolve_birth_Inr by blast
qed

lemma pacific_not_in_box: "\<not> in_india_box (Finite 0) (Finite (- 140))"
  by (simp add: in_india_box_def)

lemma pacific_steps:
  "geocode_step basic_runtime None dead_network no_caches pacific_birth
     = (Inr pacific_birth, no_caches)"
  "timezone_step basic_runtime None dead_network no_caches pacific_birth
     = (Inr pacific_birth, no_caches)"
proof -
  show "geocode_step basic_runtime None dead_network no_caches pacific_birth
     = (Inr pacific_birth, no_caches)"
    by (simp add: geocode_step_def pacific_birth_def)
  have "timezone_for_coords basic_runtime None dead_network Map.empty (Finite 0) (Finite (- 140))
      = (Inr None, Map.empty)"
    using pacific_not_in_box
    by (simp add: timezone_for_coords_all_failed [OF failed_dead_network] bounding_box_block_def)
  then show "timezone_step basic_runtime None dead_network no_caches pacific_birth
     = (Inr pacific_birth, no_caches)"
    by (simp add: timezone_step_def pacific_birth_def no_caches_def)
qed

text \<open>
  C9 at a birth record with coordinates in the Pacific, no location and no offset, every
  request failing.
\<close>

theorem compute_unresolved_offset_fails_witness:
  "\<not> truthy (timezone pacific_birth) \<and>
   compute basic_runtime None dead_network id no_caches pacific_birth
     = (Inl (HTTPException 400 TimezoneUnresolved), no_caches)"
proof -
  have "\<not> truthy (timezone pacific_birth)"
    by (simp add: pacific_birth_def)
  then show ?thesis
    using pacific_steps
      compute_unresolved_offset_fails
        [where rt = basic_runtime and k = None and net = dead_network and cs = no_caches
           and b = pacific_birth and ?b1.0 = pacific_birth and ?cs1.0 = no_caches
           and ?b2.0 = pacific_birth and ?cs2.0 = no_caches and chart = id]
    by blast
qed

end
